theory Spec2Isabelle
  imports Complex_Main
begin

section \<open>Conventions of the embedding\<close>

text \<open>
  The program is the quantitative indicator engine of TradingAgents-CN: four analyzers
  (technical, fundamentals, sentiment, risk) and the toolkit that aggregates them.

  \<^item> A Python \<open>str\<close> is a list of Unicode code points (\<open>ustring\<close>), because the
    program's labels are Chinese and Python counts, searches and splits by code point.
    Every literal of the source is a named constant below, with the text it stands
    for in its comment.
  \<^item> A Python \<open>float\<close> is a \<open>real\<close>: arithmetic is exact. Where the source can
    produce the IEEE values \<open>inf\<close> and \<open>nan\<close> (numpy division by zero) the value has
    type \<open>fl\<close>, which keeps them apart from the numbers. Where the rounding of
    float64 decides a property (the order of \<open>cvar_95\<close> and \<open>var_95\<close>) the
    computation is written out again with every operation rounded (\<open>rnd64\<close>).
  \<^item> \<open>None\<close>-able values are options; a raised exception is \<open>None\<close> or \<open>Inl\<close>.
  \<^item> The random number generator is an explicit argument, threaded through the calls
    in the order the source draws from it.
\<close>

type_synonym ustring = "nat list"

definition asc :: "string \<Rightarrow> ustring" where
  \<comment> \<open>an ASCII literal as code points\<close>
  "asc s = map of_char s"

text \<open>Python truthiness of an optional float and of an optional string.\<close>

definition truthy :: "real option \<Rightarrow> bool" where
  "truthy v = (case v of None \<Rightarrow> False | Some x \<Rightarrow> x \<noteq> 0)"

definition truthy_str :: "ustring option \<Rightarrow> bool" where
  "truthy_str v = (case v of None \<Rightarrow> False | Some s \<Rightarrow> s \<noteq> [])"

section \<open>Aggregator: \<open>enhanced_analysis_toolkit.py\<close>\<close>

subsection \<open>String literals\<close>

definition str_strong_buy :: ustring where
  \<comment> \<open>the literal U+5F3A U+70C8 U+4E70 U+5165 (strong buy)\<close>
  "str_strong_buy = [24378, 28872, 20080, 20837]"

definition str_buy :: ustring where
  \<comment> \<open>the literal U+4E70 U+5165 (buy)\<close>
  "str_buy = [20080, 20837]"

definition str_hold :: ustring where
  \<comment> \<open>the literal U+6301 U+6709 (hold)\<close>
  "str_hold = [25345, 26377]"

definition str_reduce :: ustring where
  \<comment> \<open>the literal U+51CF U+6301 (reduce)\<close>
  "str_reduce = [20943, 25345]"

definition str_sell :: ustring where
  \<comment> \<open>the literal U+5356 U+51FA (sell)\<close>
  "str_sell = [21334, 20986]"

definition str_bullish :: ustring where
  \<comment> \<open>the literal U+770B U+6DA8 (bullish)\<close>
  "str_bullish = [30475, 28072]"

definition str_heavy_position :: ustring where
  \<comment> \<open>the literal U+91CD U+4ED3 (heavy position)\<close>
  "str_heavy_position = [37325, 20179]"

definition str_standard_position :: ustring where
  \<comment> \<open>the literal U+6807 U+51C6 U+4ED3 U+4F4D (standard position)\<close>
  "str_standard_position = [26631, 20934, 20179, 20301]"

definition str_light_position :: ustring where
  \<comment> \<open>the literal U+8F7B U+4ED3 (light position)\<close>
  "str_light_position = [36731, 20179]"

definition str_reduce_position :: ustring where
  \<comment> \<open>the literal U+51CF U+4ED3 (reduce position)\<close>
  "str_reduce_position = [20943, 20179]"

definition str_clear_position :: ustring where
  \<comment> \<open>the literal U+6E05 U+4ED3 (clear position)\<close>
  "str_clear_position = [28165, 20179]"

definition str_undervalued :: ustring where
  \<comment> \<open>the literal U+4F4E U+4F30 (undervalued)\<close>
  "str_undervalued = [20302, 20272]"

definition str_overvalued :: ustring where
  \<comment> \<open>the literal U+9AD8 U+4F30 (overvalued)\<close>
  "str_overvalued = [39640, 20272]"

definition str_fair :: ustring where
  \<comment> \<open>the literal U+5408 U+7406 (fair)\<close>
  "str_fair = [21512, 29702]"

definition str_unknown :: ustring where
  \<comment> \<open>the literal U+672A U+77E5 (unknown)\<close>
  "str_unknown = [26410, 30693]"

definition str_high :: ustring where
  \<comment> \<open>the literal U+9AD8 (high)\<close>
  "str_high = [39640]"

definition str_medium :: ustring where
  \<comment> \<open>the literal U+4E2D (medium)\<close>
  "str_medium = [20013]"

definition str_moderate :: ustring where
  \<comment> \<open>the literal U+4E2D U+7B49 (moderate)\<close>
  "str_moderate = [20013, 31561]"

subsection \<open>The results dictionary\<close>

text \<open>
  An entry of the results dictionary is \<open>None\<close> (or an empty dict), a dict with the key
  \<open>"error"\<close>, or an analyzer's result. The aggregator reads each result through
  \<open>.get\<close> with a default, so each field it reads is an option: \<open>None\<close> is a missing key.
\<close>

datatype 'a analysis = NoResult | ErrorResult | Result 'a

record technical_result =
  signals :: "(ustring \<times> ustring) list option"
  overall_trend :: "ustring option"

record fundamentals_result =
  fr_valuation_level :: "ustring option"
  fr_health_score :: "real option"

record sentiment_result =
  sr_weighted_sentiment :: "real option"
  sr_confidence_score :: "real option"
  sr_overall_sentiment :: "ustring option"

record risk_result =
  rr_overall_risk_score :: "real option"
  rr_risk_level :: "ustring option"

record summary =
  technical_score :: real
  fundamentals_score :: real
  sentiment_score :: real
  risk_score :: real
  overall_score :: real

record recommendation =
  rating :: ustring
  position_size :: ustring
  risk_level :: ustring

record results =
  technical_analysis :: "technical_result analysis"
  fundamentals_analysis :: "fundamentals_result analysis"
  sentiment_analysis :: "sentiment_result analysis"
  risk_analysis :: "risk_result analysis"
  comprehensive_summary :: "summary option"
  investment_recommendation :: "recommendation option"

subsection \<open>\<open>_generate_comprehensive_summary\<close>\<close>

text \<open>
  The four blocks of the source, one function each. The textual lists of the summary
  (\<open>key_points\<close>, \<open>strengths\<close>, \<open>weaknesses\<close>) feed no score and are not part of the
  record.
\<close>

definition is_bullish :: "ustring \<Rightarrow> bool" where
  \<comment> \<open>the test of the generator expression: the signal is the buy or the bullish label\<close>
  "is_bullish signal = (signal = str_buy \<or> signal = str_bullish)"

definition technical_score_of :: "technical_result analysis \<Rightarrow> real" where
  "technical_score_of a =
     (case a of
        Result t \<Rightarrow>
          (case signals t of
             None \<Rightarrow> 0
           | Some sigs \<Rightarrow>
               if sigs \<noteq> [] then
                 (let bullish_count = length (filter is_bullish (map snd sigs));
                      total_signals = length sigs
                  in if total_signals > 0
                     then real bullish_count / real total_signals * 100 else 50)
               else 0)
      | _ \<Rightarrow> 0)"

definition fundamentals_score_of :: "fundamentals_result analysis \<Rightarrow> real" where
  "fundamentals_score_of a =
     (case a of
        Result f \<Rightarrow>
          (let valuation = (case fr_valuation_level f of None \<Rightarrow> str_unknown | Some v \<Rightarrow> v);
               health_score = (case fr_health_score f of None \<Rightarrow> 50 | Some h \<Rightarrow> h)
           in if valuation = str_undervalued then min 100 (health_score + 20)
              else if valuation = str_fair then health_score
              else max 0 (health_score - 20))
      | _ \<Rightarrow> 0)"

definition sentiment_score_of :: "sentiment_result analysis \<Rightarrow> real" where
  "sentiment_score_of a =
     (case a of
        Result s \<Rightarrow>
          (let weighted_sentiment = (case sr_weighted_sentiment s of None \<Rightarrow> 0 | Some w \<Rightarrow> w);
               confidence = (case sr_confidence_score s of None \<Rightarrow> 1 / 2 | Some c \<Rightarrow> c);
               sentiment_score = (weighted_sentiment + 1) * 50
           in sentiment_score * confidence)
      | _ \<Rightarrow> 0)"

definition risk_score_of :: "risk_result analysis \<Rightarrow> real" where
  "risk_score_of a =
     (case a of
        Result r \<Rightarrow>
          (let risk_score = (case rr_overall_risk_score r of None \<Rightarrow> 50 | Some x \<Rightarrow> x)
           in 100 - risk_score)
      | _ \<Rightarrow> 0)"

definition generate_comprehensive_summary :: "results \<Rightarrow> summary" where
  "generate_comprehensive_summary res =
     (let ts = technical_score_of (technical_analysis res);
          fs = fundamentals_score_of (fundamentals_analysis res);
          ss = sentiment_score_of (sentiment_analysis res);
          rs = risk_score_of (risk_analysis res);
          valid_scores = filter (\<lambda>s. s > 0) [ts, fs, ss, rs]
      in \<lparr> technical_score = ts, fundamentals_score = fs, sentiment_score = ss,
           risk_score = rs,
           overall_score =
             (if valid_scores \<noteq> [] then sum_list valid_scores / real (length valid_scores)
              else 0) \<rparr>)"

subsection \<open>\<open>_generate_investment_recommendation\<close>\<close>

text \<open>
  \<open>results.get("comprehensive_summary", {}).get("overall_score", 50)\<close>: a results
  dictionary without a summary reads as score 50. The warnings, the time horizon and
  the action items are not part of the record; none of them feeds the rating.
\<close>

definition generate_investment_recommendation :: "results \<Rightarrow> recommendation" where
  "generate_investment_recommendation res =
     (let score = (case comprehensive_summary res of None \<Rightarrow> 50 | Some s \<Rightarrow> overall_score s);
          rec0 =
            (if score \<ge> 80 then
               \<lparr> rating = str_strong_buy, position_size = str_heavy_position,
                 risk_level = str_moderate \<rparr>
             else if score \<ge> 65 then
               \<lparr> rating = str_buy, position_size = str_standard_position,
                 risk_level = str_moderate \<rparr>
             else if score \<ge> 50 then
               \<lparr> rating = str_hold, position_size = str_light_position,
                 risk_level = str_moderate \<rparr>
             else if score \<ge> 35 then
               \<lparr> rating = str_reduce, position_size = str_reduce_position,
                 risk_level = str_moderate \<rparr>
             else
               \<lparr> rating = str_sell, position_size = str_clear_position,
                 risk_level = str_moderate \<rparr>)
      in case risk_analysis res of
           Result r \<Rightarrow>
             (let lvl = (case rr_risk_level r of None \<Rightarrow> str_medium | Some l \<Rightarrow> l);
                  rec1 = rec0 \<lparr> risk_level := lvl \<rparr>
              in if lvl = str_high \<and> (rating rec1 = str_strong_buy \<or> rating rec1 = str_buy)
                 then rec1 \<lparr> position_size := str_light_position \<rparr>
                 else rec1)
         | _ \<Rightarrow> rec0)"

subsection \<open>\<open>comprehensive_analysis\<close>\<close>

text \<open>
  The toolkit calls \<open>self.technical_analyzer.analyze_stock_data(stock_data)\<close> inside
  \<open>try\<close>. \<open>EnhancedTechnicalAnalyzer\<close> defines no method of that name, so the call
  raises \<open>AttributeError\<close> and the entry becomes \<open>{"error": ...}\<close>; with an empty
  \<open>stock_data\<close> the call is skipped and the entry stays \<open>None\<close>. The other three
  analyzers are arguments here: what they return is read only through the fields
  above. The sentiment analyzer runs only on a non-empty \<open>news_data\<close>.
\<close>

definition comprehensive_analysis ::
  "(ustring \<Rightarrow> ustring option \<Rightarrow> fundamentals_result analysis) \<Rightarrow>
   (ustring \<Rightarrow> ustring \<Rightarrow> sentiment_result analysis) \<Rightarrow>
   (ustring \<Rightarrow> ustring option \<Rightarrow> ustring option \<Rightarrow> risk_result analysis) \<Rightarrow>
   ustring \<Rightarrow> ustring \<Rightarrow> ustring option \<Rightarrow> ustring option \<Rightarrow> ustring option \<Rightarrow> results"
where
  "comprehensive_analysis analyze_fundamentals analyze_news_sentiment analyze_risk
       ticker stock_data fundamentals_data news_data market_data =
     (let res0 =
            \<lparr> technical_analysis = (if stock_data \<noteq> [] then ErrorResult else NoResult),
              fundamentals_analysis = analyze_fundamentals stock_data fundamentals_data,
              sentiment_analysis =
                (case news_data of
                   None \<Rightarrow> NoResult
                 | Some n \<Rightarrow> if n \<noteq> [] then analyze_news_sentiment n ticker else NoResult),
              risk_analysis = analyze_risk stock_data market_data fundamentals_data,
              comprehensive_summary = None,
              investment_recommendation = None \<rparr>;
          res1 = res0 \<lparr> comprehensive_summary := Some (generate_comprehensive_summary res0) \<rparr>
      in res1 \<lparr> investment_recommendation := Some (generate_investment_recommendation res1) \<rparr>)"

text \<open>
  \<open>available\<close> is the test \<open>results.get(k) and "error" not in results[k]\<close> that guards
  each block of the summary. \<open>constant_risk_analyzer x\<close> is a risk analyzer whose
  composite risk score is always \<open>x\<close>; the concrete instances of the properties use it.
\<close>

definition available :: "'a analysis \<Rightarrow> bool" where
  "available a = (case a of Result _ \<Rightarrow> True | _ \<Rightarrow> False)"

definition constant_risk_analyzer ::
  "real \<Rightarrow> ustring \<Rightarrow> ustring option \<Rightarrow> ustring option \<Rightarrow> risk_result analysis" where
  "constant_risk_analyzer x stock_data market_data fundamentals_data =
     Result \<lparr> rr_overall_risk_score = Some x, rr_risk_level = None \<rparr>"

section \<open>Fundamentals analyzer: \<open>enhanced_fundamentals_analysis.py\<close>\<close>

definition str_excellent :: ustring where
  \<comment> \<open>the literal U+4F18 U+79C0 (excellent)\<close>
  "str_excellent = [20248, 31168]"

definition str_good :: ustring where
  \<comment> \<open>the literal U+826F U+597D (good)\<close>
  "str_good = [33391, 22909]"

definition str_average :: ustring where
  \<comment> \<open>the literal U+4E00 U+822C (average)\<close>
  "str_average = [19968, 33324]"

definition str_poor :: ustring where
  \<comment> \<open>the literal U+8F83 U+5DEE (poor)\<close>
  "str_poor = [36739, 24046]"

record price_info =
  current_price :: "real option"
  market_cap :: "real option"
  pi_pe_ratio :: "real option"
  pi_pb_ratio :: "real option"
  pi_dividend_yield :: "real option"
  volume :: "real option"
  avg_volume :: "real option"

record valuation_metrics =
  pe_ratio :: "real option"
  pb_ratio :: "real option"
  ps_ratio :: "real option"
  peg_ratio :: "real option"
  ev_ebitda :: "real option"
  dividend_yield :: "real option"
  valuation_level :: ustring

definition extract_growth_rate :: "ustring \<Rightarrow> real option" where
  \<comment> \<open>\<open>return 12.5\<close>, whatever the text\<close>
  "extract_growth_rate fundamentals_data = Some (25 / 2)"

definition calculate_valuation_metrics :: "price_info \<Rightarrow> ustring option \<Rightarrow> valuation_metrics" where
  "calculate_valuation_metrics info fundamentals_data =
     (let pe = pi_pe_ratio info;
          pb = pi_pb_ratio info;
          level =
            (if truthy pe \<and> truthy pb then
               (if the pe < 15 \<and> the pb < 2 then str_undervalued
                else if the pe > 30 \<or> the pb > 5 then str_overvalued
                else str_fair)
             else str_unknown);
          peg =
            (if truthy_str fundamentals_data \<and> truthy pe then
               (let growth_rate = extract_growth_rate (the fundamentals_data)
                in if truthy growth_rate \<and> the growth_rate > 0
                   then Some (the pe / the growth_rate) else None)
             else None)
      in \<lparr> pe_ratio = pe, pb_ratio = pb, ps_ratio = None, peg_ratio = peg,
           ev_ebitda = None, dividend_yield = pi_dividend_yield info,
           valuation_level = level \<rparr>)"

record financial_health =
  debt_to_equity :: "real option"
  current_ratio :: "real option"
  quick_ratio :: "real option"
  interest_coverage :: "real option"
  cash_ratio :: "real option"
  working_capital :: "real option"
  health_score :: int
  health_level :: ustring

definition health_points :: "financial_health \<Rightarrow> int" where
  \<comment> \<open>the five \<open>if ratio and ratio <threshold>: score += 20\<close> of the source\<close>
  "health_points h =
     (if truthy (debt_to_equity h) \<and> the (debt_to_equity h) < 1 / 2 then 20 else 0)
   + (if truthy (current_ratio h) \<and> the (current_ratio h) > 3 / 2 then 20 else 0)
   + (if truthy (quick_ratio h) \<and> the (quick_ratio h) > 1 then 20 else 0)
   + (if truthy (interest_coverage h) \<and> the (interest_coverage h) > 5 then 20 else 0)
   + (if truthy (cash_ratio h) \<and> the (cash_ratio h) > 1 / 5 then 20 else 0)"

definition health_level_of :: "int \<Rightarrow> ustring" where
  "health_level_of score =
     (if score \<ge> 80 then str_excellent
      else if score \<ge> 60 then str_good
      else if score \<ge> 40 then str_average
      else str_poor)"

definition calculate_financial_health :: "ustring option \<Rightarrow> financial_health" where
  "calculate_financial_health fundamentals_data =
     (let health =
            \<lparr> debt_to_equity = None, current_ratio = None, quick_ratio = None,
              interest_coverage = None, cash_ratio = None, working_capital = None,
              health_score = 0, health_level = str_unknown \<rparr>
      in if truthy_str fundamentals_data then
           (let h1 = health \<lparr> debt_to_equity := Some (2 / 5), current_ratio := Some (9 / 5),
                               quick_ratio := Some (6 / 5), interest_coverage := Some (17 / 2),
                               cash_ratio := Some (3 / 10) \<rparr>;
                score = health_points h1
            in h1 \<lparr> health_score := score, health_level := health_level_of score \<rparr>)
         else health)"

section \<open>String operations of Python used by the analyzers\<close>

text \<open>
  \<open>sub in s\<close> is the contiguous-substring test. The regular expression class \<open>\d\<close> and
  \<open>int()\<close> read every Unicode decimal digit; which code points those are, and their
  values, is the table \<open>dv\<close> that the functions below take. \<open>ascii_digits\<close> is the part
  of Python's table on \<open>0\<close>..\<open>9\<close>, and \<open>unicode_digits_ok\<close> says what the proofs need of
  a table: it reads the ASCII digits as Python does and none of the characters of the
  recency markers is a digit.
\<close>

type_synonym digit_table = "nat \<Rightarrow> nat option"

definition ascii_digits :: digit_table where
  "ascii_digits c = (if 48 \<le> c \<and> c \<le> 57 then Some (c - 48) else None)"


fun starts_with :: "'a list \<Rightarrow> 'a list \<Rightarrow> bool" where
  "starts_with [] s = True"
| "starts_with (p # ps) [] = False"
| "starts_with (p # ps) (c # cs) = (p = c \<and> starts_with ps cs)"

fun py_in :: "'a list \<Rightarrow> 'a list \<Rightarrow> bool" where
  "py_in sub [] = (sub = [])"
| "py_in sub (c # cs) = (starts_with sub (c # cs) \<or> py_in sub cs)"

definition is_digit :: "digit_table \<Rightarrow> nat \<Rightarrow> bool" where
  "is_digit dv c = (dv c \<noteq> None)"


definition py_int :: "digit_table \<Rightarrow> ustring \<Rightarrow> nat" where
  \<comment> \<open>\<open>int(m)\<close> on a run of digits\<close>
  "py_int dv ds = foldl (\<lambda>a c. 10 * a + (case dv c of None \<Rightarrow> 0 | Some d \<Rightarrow> d)) 0 ds"



section \<open>Sentiment analyzer: \<open>enhanced_sentiment_analysis.py\<close>\<close>






section \<open>Risk analyzer: \<open>enhanced_risk_analysis.py\<close>\<close>

subsection \<open>More of Python's string operations\<close>

text \<open>
  \<open>s.split(sep)\<close> for a one-character separator, \<open>s.strip()\<close> with Python's table of
  white space, and \<open>re.search(r'([\d.]+)', s)\<close>. \<open>float(s)\<close> is the argument \<open>pf\<close> of
  the functions below, \<open>None\<close> where Python raises \<open>ValueError\<close>. \<open>simple_float\<close> is
  \<open>float\<close> on the strings of ASCII digits with at most one point, the only strings
  the concrete instances pass to it.
\<close>

fun py_split :: "'a \<Rightarrow> 'a list \<Rightarrow> 'a list list" where
  "py_split sep [] = [[]]"
| "py_split sep (c # cs) =
     (if c = sep then [] # py_split sep cs
      else (case py_split sep cs of [] \<Rightarrow> [[c]] | w # ws \<Rightarrow> (c # w) # ws))"

definition py_isspace :: "nat \<Rightarrow> bool" where
  "py_isspace c =
     ((9 \<le> c \<and> c \<le> 13) \<or> (28 \<le> c \<and> c \<le> 32) \<or> c = 133 \<or> c = 160 \<or> c = 5760 \<or>
      (8192 \<le> c \<and> c \<le> 8202) \<or> c = 8232 \<or> c = 8233 \<or> c = 8239 \<or> c = 8287 \<or> c = 12288)"

definition py_strip :: "ustring \<Rightarrow> ustring" where
  "py_strip s = rev (dropWhile py_isspace (rev (dropWhile py_isspace s)))"

definition re_search_number :: "digit_table \<Rightarrow> ustring \<Rightarrow> ustring option" where
  "re_search_number dv s =
     (let m = takeWhile (\<lambda>c. is_digit dv c \<or> c = 46)
                (dropWhile (\<lambda>c. \<not> (is_digit dv c \<or> c = 46)) s)
      in if m = [] then None else Some m)"

type_synonym py_float = "ustring \<Rightarrow> real option"

definition simple_float :: py_float where
  "simple_float s =
     (let ip = takeWhile (\<lambda>c. c \<noteq> 46) s;
          fp = drop (length ip + 1) s
      in if list_all (\<lambda>c. ascii_digits c \<noteq> None) (ip @ fp) \<and> ip @ fp \<noteq> []
         then Some (real (py_int ascii_digits (ip @ fp)) / 10 ^ length fp)
         else None)"


subsection \<open>The random number generator\<close>

text \<open>
  The state of \<open>np.random\<close> is the sequence of standard normal variates it will
  return. \<open>np.random.normal(loc, scale)\<close> takes the next one, \<open>z\<close>, and returns
  \<open>loc + scale * z\<close>; with a size it takes that many in order;
  \<open>np.random.lognormal(mean, sigma)\<close> returns \<open>exp (mean + sigma * z)\<close>. Nothing is
  assumed about the variates: a property holds for every sequence.
\<close>

type_synonym rng = "nat \<Rightarrow> real"

definition normal :: "real \<Rightarrow> real \<Rightarrow> rng \<Rightarrow> real \<times> rng" where
  "normal loc scale g = (loc + scale * g 0, \<lambda>i. g (Suc i))"

fun normals :: "real \<Rightarrow> real \<Rightarrow> nat \<Rightarrow> rng \<Rightarrow> real list \<times> rng" where
  "normals loc scale 0 g = ([], g)"
| "normals loc scale (Suc n) g =
     (case normal loc scale g of (x, g1) \<Rightarrow>
        (case normals loc scale n g1 of (xs, g2) \<Rightarrow> (x # xs, g2)))"

fun lognormals :: "real \<Rightarrow> real \<Rightarrow> nat \<Rightarrow> rng \<Rightarrow> real list \<times> rng" where
  "lognormals m sigma 0 g = ([], g)"
| "lognormals m sigma (Suc n) g =
     (case normal m sigma g of (x, g1) \<Rightarrow>
        (case lognormals m sigma n g1 of (xs, g2) \<Rightarrow> (exp x # xs, g2)))"

subsection \<open>numpy on arrays of floats\<close>

definition np_mean :: "real list \<Rightarrow> real" where
  "np_mean xs = sum_list xs / real (length xs)"

definition np_var :: "real list \<Rightarrow> real" where
  \<comment> \<open>\<open>np.var\<close>: the population variance\<close>
  "np_var xs = (let m = np_mean xs in sum_list (map (\<lambda>x. (x - m)\<^sup>2) xs) / real (length xs))"

definition np_std :: "real list \<Rightarrow> real" where
  "np_std xs = sqrt (np_var xs)"

definition np_cov :: "real list \<Rightarrow> real list \<Rightarrow> real" where
  \<comment> \<open>\<open>np.cov(xs, ys)[0, 1]\<close>: the sample covariance, divided by \<open>n - 1\<close>\<close>
  "np_cov xs ys =
     (let mx = np_mean xs; my = np_mean ys
      in sum_list (map (\<lambda>(x, y). (x - mx) * (y - my)) (zip xs ys)) / (real (length xs) - 1))"

definition np_percentile :: "real list \<Rightarrow> real \<Rightarrow> real option" where
  \<comment> \<open>\<open>np.percentile(xs, q)\<close>, linear interpolation between the two nearest ranks;
      \<open>None\<close> on the empty array, where numpy has no number to return\<close>
  "np_percentile xs q =
     (if xs = [] then None
      else
        (let s = sort xs;
             n = length xs;
             h = real (n - 1) * q / 100;
             lo = nat \<lfloor>h\<rfloor>;
             hi = min (lo + 1) (n - 1)
         in Some (s ! lo + (h - real lo) * (s ! hi - s ! lo))))"

subsection \<open>\<open>_parse_price_data\<close>\<close>

definition str_close_price_cn :: ustring where
  \<comment> \<open>the literal U+6536 U+76D8 U+4EF7 followed by a colon (closing price:)\<close>
  "str_close_price_cn = [25910, 30424, 20215, 58]"

definition str_price_cn :: ustring where
  \<comment> \<open>the literal U+4EF7 U+683C followed by a colon (price:)\<close>
  "str_price_cn = [20215, 26684, 58]"

definition str_close :: ustring where
  "str_close = asc ''Close:''"

definition str_volume_cn :: ustring where
  \<comment> \<open>the literal U+6210 U+4EA4 U+91CF followed by a colon (volume:)\<close>
  "str_volume_cn = [25104, 20132, 37327, 58]"

definition str_volume :: ustring where
  "str_volume = asc ''Volume:''"

text \<open>
  What one line of the text contributes: nothing, a number, or an exception that
  leaves the loop. In the labelled branch \<open>float\<close> stands outside any inner \<open>try\<close>, so
  its \<open>ValueError\<close> (as on \<open>1.2.3\<close>) ends \<open>_parse_price_data\<close> in its outer \<open>except\<close>;
  in the comma branch the bare \<open>except: continue\<close> skips the line.
\<close>

datatype line_result = Skip | Price real | Raised

definition labelled_number :: "digit_table \<Rightarrow> py_float \<Rightarrow> ustring \<Rightarrow> line_result" where
  \<comment> \<open>\<open>m = re.search(r'([\d.]+)', line.split(':')[1])\<close>, then \<open>float(m.group(1))\<close> if \<open>m\<close>\<close>
  "labelled_number dv pf line =
     (case py_split 58 line of
        _ # field # _ \<Rightarrow>
          (case re_search_number dv field of
             None \<Rightarrow> Skip
           | Some m \<Rightarrow> (case pf m of None \<Rightarrow> Raised | Some x \<Rightarrow> Price x))
      | _ \<Rightarrow> Raised)"

definition parse_price_line :: "digit_table \<Rightarrow> py_float \<Rightarrow> ustring \<Rightarrow> line_result" where
  "parse_price_line dv pf raw =
     (let line = py_strip raw
      in if py_in str_close_price_cn line \<or> py_in str_price_cn line \<or> py_in str_close line
         then labelled_number dv pf line
         else if py_in [44] line \<and> length (py_split 44 line) \<ge> 4 then
           (case pf (py_strip (py_split 44 line ! 3)) of None \<Rightarrow> Skip | Some x \<Rightarrow> Price x)
         else Skip)"

fun collect :: "(ustring \<Rightarrow> line_result) \<Rightarrow> ustring list \<Rightarrow> real list option" where
  \<comment> \<open>the \<open>for line in lines\<close> loop: the numbers in order, \<open>None\<close> if a line raised\<close>
  "collect f [] = Some []"
| "collect f (l # ls) =
     (case f l of
        Raised \<Rightarrow> None
      | Skip \<Rightarrow> collect f ls
      | Price x \<Rightarrow> (case collect f ls of None \<Rightarrow> None | Some xs \<Rightarrow> Some (x # xs)))"

definition scan_prices :: "digit_table \<Rightarrow> py_float \<Rightarrow> ustring \<Rightarrow> real list option" where
  "scan_prices dv pf stock_data = collect (parse_price_line dv pf) (py_split 10 stock_data)"

fun mock_prices :: "nat \<Rightarrow> real \<Rightarrow> rng \<Rightarrow> real list \<times> rng" where
  \<comment> \<open>the random walk \<open>base_price *= (1 + np.random.normal(0, 0.02))\<close>\<close>
  "mock_prices 0 base_price g = ([], g)"
| "mock_prices (Suc n) base_price g =
     (case normal 0 (2 / 100) g of (change, g1) \<Rightarrow>
        (let b = base_price * (1 + change)
         in case mock_prices n b g1 of (ps, g2) \<Rightarrow> (b # ps, g2)))"

definition parse_price_data ::
  "digit_table \<Rightarrow> py_float \<Rightarrow> rng \<Rightarrow> ustring \<Rightarrow> real list option \<times> rng" where
  "parse_price_data dv pf g stock_data =
     (case scan_prices dv pf stock_data of
        None \<Rightarrow> (None, g)
      | Some prices \<Rightarrow>
          if length prices < 30 then
            (case mock_prices 60 100 g of (ps, g1) \<Rightarrow> (Some ps, g1))
          else (Some prices, g))"

subsection \<open>Returns and the risk metrics\<close>

definition calculate_returns :: "real list \<Rightarrow> real list" where
  \<comment> \<open>\<open>np.diff(prices) / prices[:-1]\<close>\<close>
  "calculate_returns prices = map (\<lambda>(p, q). (q - p) / p) (zip (butlast prices) (tl prices))"

record market_risk =
  beta :: "real option"
  alpha :: "real option"
  tracking_error :: real

definition parse_market_returns :: "ustring \<Rightarrow> real list option" where
  \<comment> \<open>\<open>return None\<close>, whatever the text\<close>
  "parse_market_returns market_data = None"

definition risk_free_rate :: real where
  "risk_free_rate = 25 / 1000"

text \<open>
  \<open>_calculate_market_risk\<close>. Without market data, and with market data too (its
  parser returns \<open>None\<close>), the market returns are drawn from the generator. The
  correlation and the entries derived from it are not part of the record. \<open>None\<close> on
  an empty return series, where numpy has no numbers to return.
\<close>

definition calculate_market_risk ::
  "rng \<Rightarrow> real list \<Rightarrow> ustring option \<Rightarrow> (market_risk \<times> rng) option" where
  "calculate_market_risk g returns market_data =
     (if returns = [] then None
      else
        (let (market_returns, g1) =
               (case market_data of
                  None \<Rightarrow> normals (8 / 10000) (15 / 1000) (length returns) g
                | Some md \<Rightarrow>
                    (case parse_market_returns md of
                       None \<Rightarrow> normals (8 / 10000) (15 / 1000) (length returns) g
                     | Some mr \<Rightarrow>
                         if length mr \<noteq> length returns
                         then normals (8 / 10000) (15 / 1000) (length returns) g
                         else (mr, g)));
             covariance = np_cov returns market_returns;
             market_variance = np_var market_returns;
             b = (if market_variance > 0 then Some (covariance / market_variance) else None);
             a = (case b of
                    None \<Rightarrow> None
                  | Some bv \<Rightarrow>
                      (let expected_return =
                             risk_free_rate / 252
                             + bv * (np_mean market_returns - risk_free_rate / 252)
                       in Some (np_mean returns - expected_return)));
             tracking_diff = map (\<lambda>(r, m). r - m) (zip returns market_returns)
         in Some (\<lparr> beta = b, alpha = a,
                    tracking_error = np_std tracking_diff * sqrt 252 \<rparr>, g1)))"

record volatility_metrics =
  daily_volatility :: real
  annualized_volatility :: real
  realized_volatility :: real

definition calculate_volatility_metrics :: "real list \<Rightarrow> volatility_metrics" where
  \<comment> \<open>the three entries computed from the returns alone by closed formulas\<close>
  "calculate_volatility_metrics returns =
     \<lparr> daily_volatility = np_std returns,
       annualized_volatility = np_std returns * sqrt 252,
       realized_volatility = sqrt (sum_list (map (\<lambda>r. r\<^sup>2) returns)) * sqrt 252 \<rparr>"

record var_metrics =
  var_95 :: real
  var_99 :: real
  cvar_95 :: "real option"
  cvar_99 :: "real option"
  var_parametric :: real
  var_historical :: real
  var_monte_carlo :: real
  var_ratio :: "real option"

definition tail_mean :: "real list \<Rightarrow> real \<Rightarrow> real option" where
  \<comment> \<open>\<open>tail = returns[returns <= threshold]\<close>, then \<open>np.mean(tail)\<close> if \<open>len(tail) > 0\<close>\<close>
  "tail_mean returns threshold =
     (let tail = filter (\<lambda>r. r \<le> threshold) returns
      in if length tail > 0 then Some (np_mean tail) else None)"

definition calculate_var_metrics :: "rng \<Rightarrow> real list \<Rightarrow> (var_metrics \<times> rng) option" where
  "calculate_var_metrics g returns =
     (case (np_percentile returns 5, np_percentile returns 1) of
        (Some v95, Some v99) \<Rightarrow>
          (let mean_return = np_mean returns;
               std_return = np_std returns
           in case normals mean_return std_return 10000 g of
                (simulated_returns, g1) \<Rightarrow>
                  (case np_percentile simulated_returns 5 of
                     None \<Rightarrow> None
                   | Some mc \<Rightarrow>
                       Some (\<lparr> var_95 = v95, var_99 = v99,
                               cvar_95 = tail_mean returns v95,
                               cvar_99 = tail_mean returns v99,
                               var_parametric = mean_return - 1645 / 1000 * std_return,
                               var_historical = v95,
                               var_monte_carlo = mc,
                               var_ratio =
                                 (if mean_return \<noteq> 0 then Some (\<bar>v95\<bar> / \<bar>mean_return\<bar>)
                                  else None) \<rparr>, g1)))
      | _ \<Rightarrow> None)"

subsection \<open>\<open>_extract_volume_data\<close>\<close>

text \<open>
  The lines are not stripped here, \<open>float\<close> stands in no \<open>try\<close>, and fewer than 10
  volumes are replaced by 30 drawn ones. \<open>None\<close> is the \<open>ValueError\<close> of \<open>float\<close>, which
  \<open>analyze_risk_metrics\<close> turns into its failure message.
\<close>

definition parse_volume_line :: "digit_table \<Rightarrow> py_float \<Rightarrow> ustring \<Rightarrow> line_result" where
  "parse_volume_line dv pf line =
     (if py_in str_volume_cn line \<or> py_in str_volume line then labelled_number dv pf line
      else Skip)"

definition extract_volume_data ::
  "digit_table \<Rightarrow> py_float \<Rightarrow> rng \<Rightarrow> ustring \<Rightarrow> real list option \<times> rng" where
  "extract_volume_data dv pf g stock_data =
     (case collect (parse_volume_line dv pf) (py_split 10 stock_data) of
        None \<Rightarrow> (None, g)
      | Some volumes \<Rightarrow>
          if length volumes < 10 then
            (case lognormals 13 (1 / 2) 30 g of (vs, g1) \<Rightarrow> (Some vs, g1))
          else (Some volumes, g))"

subsection \<open>\<open>analyze_risk_metrics\<close>\<close>

text \<open>
  The two error results of the source: the message of the length-30 gate, and the
  message of the outer \<open>except\<close>. The result record holds the entries modelled above;
  the generator is threaded in the order of the calls: prices, market risk, VaR,
  volumes. The steps of the source that are not modelled (down-side risk, the scores,
  the alerts) draw nothing from the generator and raise nothing.
\<close>

datatype risk_error = InsufficientPriceData | AnalysisFailed

record risk_analysis =
  price_data_points :: nat
  analysis_period :: nat
  ra_market_risk :: market_risk
  ra_volatility_metrics :: volatility_metrics
  ra_var_metrics :: var_metrics

definition analyze_risk_metrics ::
  "digit_table \<Rightarrow> py_float \<Rightarrow> rng \<Rightarrow> ustring \<Rightarrow> ustring option \<Rightarrow> ustring option \<Rightarrow>
   (risk_error + risk_analysis) \<times> rng" where
  "analyze_risk_metrics dv pf g stock_data market_data fundamentals_data =
     (case parse_price_data dv pf g stock_data of
        (None, g1) \<Rightarrow> (Inl InsufficientPriceData, g1)
      | (Some price_series, g1) \<Rightarrow>
          if length price_series < 30 then (Inl InsufficientPriceData, g1)
          else
            (let returns = calculate_returns price_series
             in case calculate_market_risk g1 returns market_data of
                  None \<Rightarrow> (Inl AnalysisFailed, g1)
                | Some (mr, g2) \<Rightarrow>
                    (case calculate_var_metrics g2 returns of
                       None \<Rightarrow> (Inl AnalysisFailed, g2)
                     | Some (vm, g3) \<Rightarrow>
                         (case extract_volume_data dv pf g3 stock_data of
                            (None, g4) \<Rightarrow> (Inl AnalysisFailed, g4)
                          | (Some volumes, g4) \<Rightarrow>
                              (Inr \<lparr> price_data_points = length price_series,
                                     analysis_period = length returns,
                                     ra_market_risk = mr,
                                     ra_volatility_metrics =
                                       calculate_volatility_metrics returns,
                                     ra_var_metrics = vm \<rparr>, g4)))))"

subsection \<open>Inputs and projections for the properties\<close>



definition spike :: "real \<Rightarrow> rng" where
  "spike z = (\<lambda>i. if i = 0 then z else 0)"


section \<open>Technical analyzer: \<open>enhanced_technical_analysis.py\<close>\<close>

subsection \<open>Floats with the IEEE special values\<close>

text \<open>
  pandas and numpy divide floats without raising: a zero denominator gives \<open>inf\<close>,
  \<open>-inf\<close> or \<open>nan\<close>, and these propagate through the later arithmetic. \<open>fl\<close> is a
  float that may be one of them; comparisons with \<open>nan\<close> are false. The sign of a
  zero is not modelled (it only decides the sign of an infinity).
\<close>

datatype fl = Num real | PosInf | NegInf | NaN

definition fl_div :: "fl \<Rightarrow> fl \<Rightarrow> fl" where
  "fl_div a b =
     (case (a, b) of
        (NaN, _) \<Rightarrow> NaN
      | (_, NaN) \<Rightarrow> NaN
      | (Num x, Num y) \<Rightarrow>
          if y \<noteq> 0 then Num (x / y)
          else if x > 0 then PosInf else if x < 0 then NegInf else NaN
      | (Num x, _) \<Rightarrow> Num 0
      | (PosInf, Num y) \<Rightarrow> if y < 0 then NegInf else PosInf
      | (NegInf, Num y) \<Rightarrow> if y < 0 then PosInf else NegInf
      | (_, _) \<Rightarrow> NaN)"

definition fl_add :: "fl \<Rightarrow> fl \<Rightarrow> fl" where
  "fl_add a b =
     (case (a, b) of
        (NaN, _) \<Rightarrow> NaN
      | (_, NaN) \<Rightarrow> NaN
      | (Num x, Num y) \<Rightarrow> Num (x + y)
      | (PosInf, NegInf) \<Rightarrow> NaN
      | (NegInf, PosInf) \<Rightarrow> NaN
      | (PosInf, _) \<Rightarrow> PosInf
      | (NegInf, _) \<Rightarrow> NegInf
      | (_, PosInf) \<Rightarrow> PosInf
      | (_, NegInf) \<Rightarrow> NegInf)"

definition fl_neg :: "fl \<Rightarrow> fl" where
  "fl_neg a = (case a of Num x \<Rightarrow> Num (- x) | PosInf \<Rightarrow> NegInf | NegInf \<Rightarrow> PosInf | NaN \<Rightarrow> NaN)"

definition fl_sub :: "fl \<Rightarrow> fl \<Rightarrow> fl" where
  "fl_sub a b = fl_add a (fl_neg b)"

definition fl_mul :: "fl \<Rightarrow> fl \<Rightarrow> fl" where
  "fl_mul a b =
     (case (a, b) of
        (NaN, _) \<Rightarrow> NaN
      | (_, NaN) \<Rightarrow> NaN
      | (Num x, Num y) \<Rightarrow> Num (x * y)
      | (Num x, PosInf) \<Rightarrow> if x > 0 then PosInf else if x < 0 then NegInf else NaN
      | (Num x, NegInf) \<Rightarrow> if x > 0 then NegInf else if x < 0 then PosInf else NaN
      | (PosInf, Num y) \<Rightarrow> if y > 0 then PosInf else if y < 0 then NegInf else NaN
      | (NegInf, Num y) \<Rightarrow> if y > 0 then NegInf else if y < 0 then PosInf else NaN
      | (PosInf, PosInf) \<Rightarrow> PosInf
      | (NegInf, NegInf) \<Rightarrow> PosInf
      | (_, _) \<Rightarrow> NegInf)"

definition fl_gt :: "fl \<Rightarrow> fl \<Rightarrow> bool" where
  "fl_gt a b =
     (case (a, b) of
        (NaN, _) \<Rightarrow> False
      | (_, NaN) \<Rightarrow> False
      | (Num x, Num y) \<Rightarrow> x > y
      | (PosInf, PosInf) \<Rightarrow> False
      | (PosInf, _) \<Rightarrow> True
      | (_, NegInf) \<Rightarrow> (a \<noteq> NegInf)
      | (_, _) \<Rightarrow> False)"

definition fl_lt :: "fl \<Rightarrow> fl \<Rightarrow> bool" where
  "fl_lt a b = fl_gt b a"

definition round_half_even :: "real \<Rightarrow> int" where
  "round_half_even y =
     (let f = \<lfloor>y\<rfloor>; d = y - of_int f
      in if d < 1 / 2 then f else if d > 1 / 2 then f + 1 else if even f then f else f + 1)"

definition py_round2 :: "real \<Rightarrow> real" where
  \<comment> \<open>\<open>round(x, 2)\<close> of a float: to the nearest hundredth, ties to even\<close>
  "py_round2 x = of_int (round_half_even (x * 100)) / 100"

definition fl_round2 :: "fl \<Rightarrow> fl" where
  \<comment> \<open>\<open>round\<close> leaves \<open>nan\<close> and the infinities as they are\<close>
  "fl_round2 a = (case a of Num x \<Rightarrow> Num (py_round2 x) | _ \<Rightarrow> a)"

subsection \<open>The data frame\<close>

text \<open>
  A row of the OHLCV frame; the frame is the list of its rows in chronological order.
  \<open>s.rolling(w).mean().iloc[-1]\<close> is the mean of the last \<open>w\<close> entries, and
  \<open>rolling(w).std()\<close> is the sample standard deviation (divisor \<open>w - 1\<close>) of them;
  both are read only where the series has at least \<open>w\<close> entries.
\<close>

record bar =
  bar_open :: real
  bar_high :: real
  bar_low :: real
  bar_close :: real
  bar_volume :: real

definition last_window :: "nat \<Rightarrow> real list \<Rightarrow> real list" where
  "last_window w xs = drop (length xs - w) xs"

definition rolling_mean_last :: "nat \<Rightarrow> real list \<Rightarrow> real" where
  "rolling_mean_last w xs = sum_list (last_window w xs) / real w"

definition rolling_std_last :: "nat \<Rightarrow> real list \<Rightarrow> real" where
  "rolling_std_last w xs =
     (let win = last_window w xs; m = sum_list win / real w
      in sqrt (sum_list (map (\<lambda>x. (x - m)\<^sup>2) win) / (real w - 1)))"

subsection \<open>RSI\<close>

text \<open>
  \<open>delta = close.diff()\<close> has \<open>nan\<close> first, which \<open>where(delta > 0, 0)\<close> and
  \<open>where(delta < 0, 0)\<close> both replace by 0: the gains and the losses start with 0.
  \<open>rs = gain / loss\<close> and \<open>rsi = 100 - (100 / (1 + rs))\<close> are float operations.
  \<open>rsi_last\<close> is \<open>rsi.iloc[-1]\<close>; on fewer than 14 rows the rolling mean is \<open>nan\<close>.
\<close>

definition deltas :: "real list \<Rightarrow> real list" where
  "deltas closes = map (\<lambda>(p, q). q - p) (zip (butlast closes) (tl closes))"

definition gains :: "real list \<Rightarrow> real list" where
  "gains closes = (if closes = [] then [] else 0 # map (\<lambda>d. if d > 0 then d else 0) (deltas closes))"

definition losses :: "real list \<Rightarrow> real list" where
  "losses closes =
     (if closes = [] then [] else 0 # map (\<lambda>d. - (if d < 0 then d else 0)) (deltas closes))"

definition rsi_last :: "real list \<Rightarrow> fl" where
  "rsi_last closes =
     (if length closes < 14 then NaN
      else
        (let gain = rolling_mean_last 14 (gains closes);
             loss = rolling_mean_last 14 (losses closes);
             rs = fl_div (Num gain) (Num loss)
         in fl_sub (Num 100) (fl_div (Num 100) (fl_add (Num 1) rs))))"

record rsi_info =
  rsi_value :: fl
  rsi_signal :: string
  rsi_trend :: string

definition rsi_indicator :: "real list \<Rightarrow> rsi_info" where
  "rsi_indicator closes =
     (let current_rsi = rsi_last closes
      in \<lparr> rsi_value = fl_round2 current_rsi,
           rsi_signal =
             (if fl_gt current_rsi (Num 70) then ''overbought''
              else if fl_lt current_rsi (Num 30) then ''oversold'' else ''neutral''),
           rsi_trend =
             (if fl_gt current_rsi (rsi_last (butlast closes)) then ''up'' else ''down'') \<rparr>)"

subsection \<open>Bollinger bands\<close>

record bollinger_info =
  bb_upper :: real
  bb_middle :: real
  bb_lower :: real
  bb_width :: fl
  bb_position :: fl

definition bollinger_indicator :: "real list \<Rightarrow> bollinger_info" where
  \<comment> \<open>the \<open>squeeze\<close> flag, a comparison of widths, is not part of the record\<close>
  "bollinger_indicator closes =
     (let current_price = last closes;
          sma20 = rolling_mean_last 20 closes;
          std20 = rolling_std_last 20 closes;
          upper = sma20 + std20 * 2;
          lower = sma20 - std20 * 2;
          width = fl_mul (fl_div (Num (upper - lower)) (Num sma20)) (Num 100)
      in \<lparr> bb_upper = py_round2 upper,
           bb_middle = py_round2 sma20,
           bb_lower = py_round2 lower,
           bb_width = fl_round2 width,
           bb_position =
             fl_round2 (fl_mul (fl_div (Num (current_price - lower)) (Num (upper - lower)))
                          (Num 100)) \<rparr>)"

subsection \<open>\<open>calculate_technical_indicators\<close>\<close>

text \<open>
  The frame has all five columns. Fewer than 5 rows give the error result; otherwise
  each category is present when the frame is long enough for it. Of the categories of
  the source the record holds the RSI and the Bollinger bands. The other categories
  are float arithmetic of the same kind and raise nothing on such a frame, so the
  outer \<open>except\<close> is never entered.
\<close>

datatype technical_error = NotEnoughData

record indicators =
  rsi :: "rsi_info option"
  bollinger_bands :: "bollinger_info option"

definition calculate_technical_indicators :: "bar list \<Rightarrow> technical_error + indicators" where
  "calculate_technical_indicators df =
     (if length df < 5 then Inl NotEnoughData
      else
        (let closes = map bar_close df
         in Inr \<lparr> rsi = (if length df \<ge> 14 then Some (rsi_indicator closes) else None),
                  bollinger_bands =
                    (if length df \<ge> 20 then Some (bollinger_indicator closes) else None) \<rparr>))"

text \<open>
  A valid OHLCV frame in the sense of the specification: every close is positive (the
  rows are in chronological order by construction). \<open>flat_bar c\<close> is a day on which the
  price stayed at \<open>c\<close>.
\<close>

definition valid_ohlcv :: "bar list \<Rightarrow> bool" where
  "valid_ohlcv df = list_all (\<lambda>b. bar_close b > 0) df"

definition flat_bar :: "real \<Rightarrow> bar" where
  "flat_bar c = \<lparr> bar_open = c, bar_high = c, bar_low = c, bar_close = c, bar_volume = 1000 \<rparr>"

section \<open>VaR and CVaR at 95 percent in float64\<close>

text \<open>
  Whether \<open>cvar_95\<close> is at most \<open>var_95\<close> is decided by the rounding of float64
  arithmetic, so for these two entries of \<open>_calculate_var_metrics\<close> the rounding is
  written out. \<open>rnd64\<close> rounds a real number to the nearest float64, ties to even: the
  significand has 53 bits; the exponent range is not bounded, so overflow and
  subnormal numbers are outside the model. Every float operation is the exact
  operation followed by \<open>rnd64\<close>.

  The two numpy routines are not in the repository and their arithmetic depends on the
  numpy version, so they are arguments of \<open>var_cvar_95_float64\<close>:
  \<^item> \<open>order\<close> gives, for an array, the tree of rounded additions by which \<open>np.mean\<close>
    sums it (left to right for fewer than 8 entries, in blocks of accumulators for
    more), and \<open>adds_all\<close> says that a tree adds exactly the entries of an array, each
    once, in whatever order;
  \<open>np.mean\<close> then divides the sum by the length.
  \<^item> \<open>pct\<close> is \<open>np.percentile\<close>.
  \<open>left_to_right\<close> is the order of numpy on fewer than 8 entries (it starts from 0.0,
  and adding the first entry to 0.0 is exact); \<open>np_percentile64\<close> is the linear
  interpolation of numpy 1.22 and later (\<open>_quantile\<close> with \<open>_lerp\<close>) on an array of at
  least two floats and a percentage in [0, 100]. \<open>float_tenth\<close> is the float64 written
  \<open>0.1\<close>, and \<open>flat_tail_returns\<close> a series of 29 returns whose three lowest are 0.1.
\<close>

definition rnd64 :: "real \<Rightarrow> real" where
  "rnd64 x =
     (if x = 0 then 0
      else
        (let e = \<lfloor>log 2 \<bar>x\<bar>\<rfloor>;
             ulp = 2 powr (of_int e - 52)
         in of_int (round_half_even (x / ulp)) * ulp))"

definition unit_roundoff :: real where
  "unit_roundoff = 1 / 2 ^ 53"

datatype sum_tree = Leaf real | Add sum_tree sum_tree

fun leaves :: "sum_tree \<Rightarrow> real list" where
  "leaves (Leaf x) = [x]"
| "leaves (Add l r) = leaves l @ leaves r"

fun eval64 :: "sum_tree \<Rightarrow> real" where
  "eval64 (Leaf x) = x"
| "eval64 (Add l r) = rnd64 (eval64 l + eval64 r)"

definition left_to_right :: "real list \<Rightarrow> sum_tree" where
  "left_to_right xs =
     (case xs of [] \<Rightarrow> Leaf 0 | x # rest \<Rightarrow> foldl (\<lambda>t y. Add t (Leaf y)) (Leaf x) rest)"

definition float_tenth :: real where
  "float_tenth = 3602879701896397 / 2 ^ 55"

definition np_percentile64 :: "real list \<Rightarrow> real \<Rightarrow> real option" where
  "np_percentile64 xs q =
     (if xs = [] then None
      else
        (let s = sort xs;
             n = length xs;
             quantile = rnd64 (q / 100);
             virtual = rnd64 (real (n - 1) * quantile)
         in if virtual \<ge> real (n - 1) then Some (s ! (n - 1))
            else
              (let lo = nat \<lfloor>virtual\<rfloor>;
                   gamma = rnd64 (virtual - real lo);
                   a = s ! lo;
                   b = s ! (lo + 1);
                   diff = rnd64 (b - a)
               in Some (if gamma \<ge> 1 / 2
                        then rnd64 (b - rnd64 (diff * rnd64 (1 - gamma)))
                        else rnd64 (a + rnd64 (diff * gamma))))))"

definition tail_mean64 :: "(real list \<Rightarrow> sum_tree) \<Rightarrow> real list \<Rightarrow> real \<Rightarrow> real option" where
  "tail_mean64 order returns threshold =
     (let tail = filter (\<lambda>r. r \<le> threshold) returns
      in if length tail > 0
         then Some (rnd64 (eval64 (order tail) / real (length tail))) else None)"

definition var_cvar_95_float64 ::
  "(real list \<Rightarrow> real \<Rightarrow> real option) \<Rightarrow> (real list \<Rightarrow> sum_tree) \<Rightarrow> real list \<Rightarrow>
   (real \<times> real option) option" where
  "var_cvar_95_float64 pct order returns =
     (case pct returns 5 of
        None \<Rightarrow> None
      | Some v95 \<Rightarrow> Some (v95, tail_mean64 order returns v95))"

definition adds_all :: "sum_tree \<Rightarrow> real list \<Rightarrow> bool" where
  "adds_all t xs = (sort (leaves t) = sort xs)"

definition flat_tail_returns :: "real list" where
  "flat_tail_returns = [float_tenth, float_tenth, float_tenth] @ replicate 26 (1 / 8)"

section \<open>Properties\<close>

lemma truthy_simps [simp]:
  "truthy None = False" "truthy (Some x) = (x \<noteq> 0)"
  by (simp_all add: truthy_def)

lemma truthy_str_simps [simp]:
  "truthy_str None = False" "truthy_str (Some s) = (s \<noteq> [])"
  by (simp_all add: truthy_str_def)

subsection \<open>The rating ladder\<close>

lemma rating_labels_distinct:
  "distinct [str_strong_buy, str_buy, str_hold, str_reduce, str_sell]"
  by (simp add: str_strong_buy_def str_buy_def str_hold_def str_reduce_def str_sell_def)

lemma rating_of_score:
  "rating (generate_investment_recommendation res) =
     (let x = (case comprehensive_summary res of None \<Rightarrow> 50 | Some s \<Rightarrow> overall_score s)
      in if x \<ge> 80 then str_strong_buy else if x \<ge> 65 then str_buy
         else if x \<ge> 50 then str_hold else if x \<ge> 35 then str_reduce else str_sell)"
  by (simp add: generate_investment_recommendation_def Let_def split: analysis.split)

lemma overall_score_unavailable:
  "\<not> available (technical_analysis res) \<Longrightarrow> \<not> available (fundamentals_analysis res) \<Longrightarrow>
   \<not> available (sentiment_analysis res) \<Longrightarrow> \<not> available (risk_analysis res) \<Longrightarrow>
   overall_score (generate_comprehensive_summary res) = 0"
  by (simp add: generate_comprehensive_summary_def available_def technical_score_of_def
      fundamentals_score_of_def sentiment_score_of_def risk_score_of_def Let_def
      split: analysis.splits)

lemma overall_score_risk_only:
  "0 < 100 - x \<Longrightarrow>
   comprehensive_summary (comprehensive_analysis (\<lambda>_ _. NoResult) (\<lambda>_ _. NoResult)
       (constant_risk_analyzer x) t sd None None None) = Some s \<Longrightarrow>
   overall_score s = 100 - x"
  by (auto simp: comprehensive_analysis_def generate_comprehensive_summary_def
      constant_risk_analyzer_def technical_score_of_def fundamentals_score_of_def
      sentiment_score_of_def risk_score_of_def Let_def)

text \<open>
  Claim C1. Every result of \<open>comprehensive_analysis\<close> carries a summary and a
  recommendation, and the rating is read off the summary's \<open>overall_score\<close> by the
  ladder: at least 80 strong buy, from 65 below 80 buy, from 50 below 65 hold, from 35
  below 50 reduce, below 35 sell. So 80 gives strong buy, 79.99 and 65 buy, 49.99 and 35
  reduce, 34.99 sell; and when none of the four analyses is available the score is 0
  and the rating is sell.
\<close>

theorem rating_ladder:
  assumes "res = comprehensive_analysis af an ar ticker sd fd nd md"
  shows "\<exists>s r. comprehensive_summary res = Some s \<and> investment_recommendation res = Some r \<and>
           rating r =
             (if overall_score s \<ge> 80 then str_strong_buy
              else if 65 \<le> overall_score s \<and> overall_score s < 80 then str_buy
              else if 50 \<le> overall_score s \<and> overall_score s < 65 then str_hold
              else if 35 \<le> overall_score s \<and> overall_score s < 50 then str_reduce
              else str_sell) \<and>
           (overall_score s = 80 \<longrightarrow> rating r = str_strong_buy) \<and>
           (overall_score s = 7999 / 100 \<longrightarrow> rating r = str_buy) \<and>
           (overall_score s = 65 \<longrightarrow> rating r = str_buy) \<and>
           (overall_score s = 4999 / 100 \<longrightarrow> rating r = str_reduce) \<and>
           (overall_score s = 35 \<longrightarrow> rating r = str_reduce) \<and>
           (overall_score s = 3499 / 100 \<longrightarrow> rating r = str_sell) \<and>
           (\<not> available (technical_analysis res) \<and> \<not> available (fundamentals_analysis res) \<and>
            \<not> available (sentiment_analysis res) \<and> \<not> available (risk_analysis res)
              \<longrightarrow> overall_score s = 0 \<and> rating r = str_sell)"
proof -
  define res0 where
    "res0 = res \<lparr> comprehensive_summary := None, investment_recommendation := None \<rparr>"
  define s where "s = generate_comprehensive_summary res0"
  define res1 where "res1 = res0 \<lparr> comprehensive_summary := Some s \<rparr>"
  define r where "r = generate_investment_recommendation res1"
  have res: "res = res1 \<lparr> investment_recommendation := Some r \<rparr>"
    unfolding assms r_def res1_def s_def res0_def
    by (simp add: comprehensive_analysis_def Let_def)
  have s: "comprehensive_summary res = Some s" and r: "investment_recommendation res = Some r"
    by (simp_all add: res res1_def)
  have ladder: "rating r =
      (if overall_score s \<ge> 80 then str_strong_buy else if overall_score s \<ge> 65 then str_buy
       else if overall_score s \<ge> 50 then str_hold else if overall_score s \<ge> 35 then str_reduce
       else str_sell)"
    unfolding r_def by (simp add: rating_of_score res1_def)
  have same: "technical_analysis res0 = technical_analysis res"
      "fundamentals_analysis res0 = fundamentals_analysis res"
      "sentiment_analysis res0 = sentiment_analysis res"
      "risk_analysis res0 = risk_analysis res"
    by (simp_all add: res0_def)
  have zero: "overall_score s = 0"
    if "\<not> available (technical_analysis res)" "\<not> available (fundamentals_analysis res)"
       "\<not> available (sentiment_analysis res)" "\<not> available (risk_analysis res)"
    unfolding s_def using that by (intro overall_score_unavailable) (simp_all add: same)
  show ?thesis
    apply (rule exI [of _ s], rule exI [of _ r])
    using zero by (auto simp: s r ladder)
qed

text \<open>
  The ladder at three concrete calls: a composite risk score of 20 alone gives an
  overall score of exactly 80 and strong buy; 20.01 gives 79.99 and buy; no stock data
  and failing analyzers give 0 and sell.
\<close>

theorem rating_ladder_witness:
  "(\<exists>s r. comprehensive_summary (comprehensive_analysis (\<lambda>_ _. NoResult) (\<lambda>_ _. NoResult)
              (constant_risk_analyzer 20) (asc ''600036'') (asc ''Close: 10'')
              None None None) = Some s \<and>
          investment_recommendation (comprehensive_analysis (\<lambda>_ _. NoResult) (\<lambda>_ _. NoResult)
              (constant_risk_analyzer 20) (asc ''600036'') (asc ''Close: 10'')
              None None None) = Some r \<and>
          overall_score s = 80 \<and> rating r = str_strong_buy) \<and>
   (\<exists>s r. comprehensive_summary (comprehensive_analysis (\<lambda>_ _. NoResult) (\<lambda>_ _. NoResult)
              (constant_risk_analyzer (2001 / 100)) (asc ''600036'') (asc ''Close: 10'')
              None None None) = Some s \<and>
          investment_recommendation (comprehensive_analysis (\<lambda>_ _. NoResult) (\<lambda>_ _. NoResult)
              (constant_risk_analyzer (2001 / 100)) (asc ''600036'') (asc ''Close: 10'')
              None None None) = Some r \<and>
          overall_score s = 7999 / 100 \<and> rating r = str_buy) \<and>
   (\<exists>s r. comprehensive_summary (comprehensive_analysis (\<lambda>_ _. NoResult) (\<lambda>_ _. ErrorResult)
              (\<lambda>_ _ _. ErrorResult) (asc ''600036'') [] None None None) = Some s \<and>
          investment_recommendation (comprehensive_analysis (\<lambda>_ _. NoResult) (\<lambda>_ _. ErrorResult)
              (\<lambda>_ _ _. ErrorResult) (asc ''600036'') [] None None None) = Some r \<and>
          overall_score s = 0 \<and> rating r = str_sell)"
proof (intro conjI)
  let ?a = "comprehensive_analysis (\<lambda>_ _. NoResult) (\<lambda>_ _. NoResult)
              (constant_risk_analyzer 20) (asc ''600036'') (asc ''Close: 10'') None None None"
  from rating_ladder [OF refl, of "\<lambda>_ _. NoResult" "\<lambda>_ _. NoResult" "constant_risk_analyzer 20"
      "asc ''600036''" "asc ''Close: 10''" None None None]
  obtain s r where *: "comprehensive_summary ?a = Some s" "investment_recommendation ?a = Some r"
    "overall_score s = 80 \<longrightarrow> rating r = str_strong_buy"
    by blast
  from overall_score_risk_only [OF _ *(1)] have "overall_score s = 80" by simp
  with * show "\<exists>s r. comprehensive_summary ?a = Some s \<and> investment_recommendation ?a = Some r \<and>
          overall_score s = 80 \<and> rating r = str_strong_buy" by blast
next
  let ?a = "comprehensive_analysis (\<lambda>_ _. NoResult) (\<lambda>_ _. NoResult)
              (constant_risk_analyzer (2001 / 100)) (asc ''600036'') (asc ''Close: 10'')
              None None None"
  from rating_ladder [OF refl, of "\<lambda>_ _. NoResult" "\<lambda>_ _. NoResult"
      "constant_risk_analyzer (2001 / 100)" "asc ''600036''" "asc ''Close: 10''" None None None]
  obtain s r where *: "comprehensive_summary ?a = Some s" "investment_recommendation ?a = Some r"
    "overall_score s = 7999 / 100 \<longrightarrow> rating r = str_buy"
    by blast
  from overall_score_risk_only [OF _ *(1)] have "overall_score s = 7999 / 100" by simp
  with * show "\<exists>s r. comprehensive_summary ?a = Some s \<and> investment_recommendation ?a = Some r \<and>
          overall_score s = 7999 / 100 \<and> rating r = str_buy" by blast
next
  let ?a = "comprehensive_analysis (\<lambda>_ _. NoResult) (\<lambda>_ _. ErrorResult)
              (\<lambda>_ _ _. ErrorResult) (asc ''600036'') [] None None None"
  from rating_ladder [OF refl, of "\<lambda>_ _. NoResult" "\<lambda>_ _. ErrorResult" "\<lambda>_ _ _. ErrorResult"
      "asc ''600036''" "[]" None None None]
  obtain s r where *: "comprehensive_summary ?a = Some s" "investment_recommendation ?a = Some r"
    "\<not> available (technical_analysis ?a) \<and> \<not> available (fundamentals_analysis ?a) \<and>
     \<not> available (sentiment_analysis ?a) \<and> \<not> available (risk_analysis ?a)
       \<longrightarrow> overall_score s = 0 \<and> rating r = str_sell"
    by blast
  have "\<not> available (technical_analysis ?a) \<and> \<not> available (fundamentals_analysis ?a) \<and>
     \<not> available (sentiment_analysis ?a) \<and> \<not> available (risk_analysis ?a)"
    by (simp add: comprehensive_analysis_def available_def Let_def)
  with * show "\<exists>s r. comprehensive_summary ?a = Some s \<and> investment_recommendation ?a = Some r \<and>
          overall_score s = 0 \<and> rating r = str_sell" by blast
qed

subsection \<open>The technical score\<close>

text \<open>
  With a non-empty \<open>signals\<close> dictionary the score is the share of bullish signals
  times 100.
\<close>

lemma technical_score_ratio:
  "sigs \<noteq> [] \<Longrightarrow>
   technical_score_of (Result \<lparr> signals = Some sigs, overall_trend = tr \<rparr>) =
     real (length (filter is_bullish (map snd sigs))) / real (length sigs) * 100"
  by (simp add: technical_score_of_def Let_def)

lemma technical_score_of_call:
  "comprehensive_summary (comprehensive_analysis af an ar ticker sd fd nd md) = Some s \<Longrightarrow>
   technical_score s = 0"
  by (auto simp: comprehensive_analysis_def generate_comprehensive_summary_def
      technical_score_of_def Let_def)


subsection \<open>Valuation level\<close>

lemma valuation_labels_distinct:
  "distinct [str_undervalued, str_overvalued, str_fair, str_unknown]"
  by (simp add: str_undervalued_def str_overvalued_def str_fair_def str_unknown_def)

text \<open>
  Claim C7, as amended. When both PE and PB were extracted and neither is zero, the
  valuation level is undervalued exactly when PE < 15 and PB < 2, overvalued when
  PE > 30 or PB > 5, and fair otherwise; PE = 10 with PB = 1 is undervalued and PE = 35
  is overvalued whatever the (non-zero) PB. A ratio of 0 counts as missing (\<open>if pe and
  pb\<close>) and leaves the level unknown.
\<close>

theorem valuation_level_rule:
  assumes "pi_pe_ratio info = Some pe" and "pi_pb_ratio info = Some pb"
    and "pe \<noteq> 0" and "pb \<noteq> 0"
  shows "valuation_level (calculate_valuation_metrics info fd) =
           (if pe < 15 \<and> pb < 2 then str_undervalued
            else if pe > 30 \<or> pb > 5 then str_overvalued else str_fair)
       \<and> (valuation_level (calculate_valuation_metrics info fd) = str_undervalued
            \<longleftrightarrow> pe < 15 \<and> pb < 2)
       \<and> (pe = 10 \<and> pb = 1 \<longrightarrow>
            valuation_level (calculate_valuation_metrics info fd) = str_undervalued)
       \<and> (pe = 35 \<longrightarrow>
            valuation_level (calculate_valuation_metrics info fd) = str_overvalued)"
  using assms valuation_labels_distinct
  by (auto simp: calculate_valuation_metrics_def Let_def)

theorem valuation_level_rule_witness:
  "valuation_level (calculate_valuation_metrics
     \<lparr> current_price = Some 12, market_cap = None, pi_pe_ratio = Some 10,
       pi_pb_ratio = Some 1, pi_dividend_yield = None, volume = None, avg_volume = None \<rparr>
     None) = str_undervalued \<and>
   valuation_level (calculate_valuation_metrics
     \<lparr> current_price = Some 12, market_cap = None, pi_pe_ratio = Some 35,
       pi_pb_ratio = Some (1 / 2), pi_dividend_yield = None, volume = None, avg_volume = None \<rparr>
     None) = str_overvalued"
  using
    valuation_level_rule [of "\<lparr> current_price = Some 12, market_cap = None,
       pi_pe_ratio = Some 10, pi_pb_ratio = Some 1, pi_dividend_yield = None, volume = None,
       avg_volume = None \<rparr>" 10 1 None]
    valuation_level_rule [of "\<lparr> current_price = Some 12, market_cap = None,
       pi_pe_ratio = Some 35, pi_pb_ratio = Some (1 / 2), pi_dividend_yield = None,
       volume = None, avg_volume = None \<rparr>" 35 "1 / 2" None]
  by simp

text \<open>
  The claim as stated fails where an extracted ratio is 0: PE = 0 with PB = 1 satisfies
  PE < 15 and PB < 2 and is not undervalued, and PE = 35 with PB = 0 is not overvalued.
\<close>

theorem valuation_level_zero_ratio:
  "pi_pe_ratio \<lparr> current_price = None, market_cap = None, pi_pe_ratio = Some 0,
       pi_pb_ratio = Some 1, pi_dividend_yield = None, volume = None, avg_volume = None \<rparr>
     = Some 0 \<and>
   (0::real) < 15 \<and> (1::real) < 2 \<and>
   valuation_level (calculate_valuation_metrics
     \<lparr> current_price = None, market_cap = None, pi_pe_ratio = Some 0,
       pi_pb_ratio = Some 1, pi_dividend_yield = None, volume = None, avg_volume = None \<rparr> None)
     \<noteq> str_undervalued \<and>
   (35::real) > 30 \<and>
   valuation_level (calculate_valuation_metrics
     \<lparr> current_price = None, market_cap = None, pi_pe_ratio = Some 35,
       pi_pb_ratio = Some 0, pi_dividend_yield = None, volume = None, avg_volume = None \<rparr> None)
     \<noteq> str_overvalued"
  by (simp add: calculate_valuation_metrics_def Let_def
      str_undervalued_def str_overvalued_def str_unknown_def)

subsection \<open>Financial health\<close>

text \<open>
  Claim C10. On every non-empty fundamentals text \<open>_calculate_financial_health\<close>
  returns the same record: debt to equity 0.4, current ratio 1.8, quick ratio 1.2,
  interest coverage 8.5, cash ratio 0.3, health score 100, health level excellent. So
  any two non-empty texts give equal results.
\<close>

theorem financial_health_fixed:
  assumes "a \<noteq> []" and "b \<noteq> []"
  shows "calculate_financial_health (Some a) =
           \<lparr> debt_to_equity = Some (4 / 10), current_ratio = Some (18 / 10),
             quick_ratio = Some (12 / 10), interest_coverage = Some (85 / 10),
             cash_ratio = Some (3 / 10), working_capital = None,
             health_score = 100, health_level = str_excellent \<rparr>
         \<and> calculate_financial_health (Some b) = calculate_financial_health (Some a)"
  using assms
  by (simp add: calculate_financial_health_def health_points_def health_level_of_def Let_def)

theorem financial_health_fixed_witness:
  "asc ''ROE: 15%'' \<noteq> [] \<and> asc ''x'' \<noteq> [] \<and>
   health_score (calculate_financial_health (Some (asc ''ROE: 15%''))) = 100 \<and>
   health_level (calculate_financial_health (Some (asc ''ROE: 15%''))) = str_excellent \<and>
   calculate_financial_health (Some (asc ''x'')) =
     calculate_financial_health (Some (asc ''ROE: 15%''))"
proof -
  have a: "asc ''ROE: 15%'' \<noteq> []" and b: "asc ''x'' \<noteq> []" by (simp_all add: asc_def)
  from financial_health_fixed [OF a b] show ?thesis using a b by simp
qed

subsection \<open>Time decay of a news item\<close>




















subsection \<open>Value at risk\<close>

lemma normals_length: "normals loc scale n g = (xs, g1) \<Longrightarrow> length xs = n"
proof (induction n arbitrary: g xs g1)
  case 0
  then show ?case by simp
next
  case (Suc n)
  obtain ys g2 where ys: "normals loc scale n (\<lambda>i. g (Suc i)) = (ys, g2)"
    by (cases "normals loc scale n (\<lambda>i. g (Suc i))")
  from Suc.IH [OF ys] Suc.prems ys show ?case by (auto simp: normal_def)
qed

lemma normals_not_Nil: "0 < n \<Longrightarrow> normals loc scale n g = (xs, g1) \<Longrightarrow> xs \<noteq> []"
  using normals_length [of loc scale n g xs g1] by auto

lemma np_percentile_Some: "xs \<noteq> [] \<Longrightarrow> \<exists>v. np_percentile xs q = Some v"
  by (simp add: np_percentile_def Let_def)

lemma sum_list_le_bound:
  fixes ys :: "real list"
  shows "(\<forall>y \<in> set ys. y \<le> v) \<Longrightarrow> sum_list ys \<le> real (length ys) * v"
  by (induction ys) (auto simp: algebra_simps)

lemma calculate_var_metrics_Some:
  assumes "returns \<noteq> []"
  shows "\<exists>m g1. calculate_var_metrics g returns = Some (m, g1) \<and>
           np_percentile returns 5 = Some (var_95 m) \<and>
           np_percentile returns 1 = Some (var_99 m) \<and>
           cvar_95 m = tail_mean returns (var_95 m) \<and>
           cvar_99 m = tail_mean returns (var_99 m)"
proof -
  obtain v95 where v95: "np_percentile returns 5 = Some v95"
    using np_percentile_Some [OF assms] by blast
  obtain v99 where v99: "np_percentile returns 1 = Some v99"
    using np_percentile_Some [OF assms] by blast
  obtain sim g1 where sim: "normals (np_mean returns) (np_std returns) 10000 g = (sim, g1)"
    by (cases "normals (np_mean returns) (np_std returns) 10000 g")
  have "sim \<noteq> []" using normals_not_Nil [OF _ sim] by simp
  then obtain mc where mc: "np_percentile sim 5 = Some mc"
    using np_percentile_Some by blast
  show ?thesis
    by (simp add: calculate_var_metrics_def v95 v99 sim mc Let_def)
qed

subsection \<open>Parsing the price text and the length-30 gate\<close>

lemma upt_0_Suc: "[0..<Suc n] = 0 # map Suc [0..<n]"
  by (simp add: upt_conv_Cons map_Suc_upt del: upt_Suc)

lemma normals_map:
  "normals loc scale n g = (map (\<lambda>i. loc + scale * g i) [0..<n], \<lambda>i. g (i + n))"
proof (induction n arbitrary: g)
  case 0
  show ?case by simp
next
  case (Suc n)
  show ?case
    unfolding upt_0_Suc by (simp add: Suc normal_def comp_def)
qed







lemma mock_prices_length: "mock_prices n b g = (ps, g1) \<Longrightarrow> length ps = n"
proof (induction n arbitrary: b g ps g1)
  case 0
  then show ?case by simp
next
  case (Suc n)
  obtain qs g2 where qs:
    "mock_prices n (b * (1 + (0 + 2 / 100 * g 0))) (\<lambda>i. g (Suc i)) = (qs, g2)"
    by (cases "mock_prices n (b * (1 + (0 + 2 / 100 * g 0))) (\<lambda>i. g (Suc i))")
  from Suc.IH [OF qs] Suc.prems qs show ?case by (auto simp: normal_def Let_def)
qed

lemma parse_price_data_short:
  assumes "scan_prices dv pf s = Some prices" and "length prices < 30"
  shows "\<exists>mock g1. parse_price_data dv pf g s = (Some mock, g1) \<and> length mock = 60 \<and>
           mock_prices 60 100 g = (mock, g1)"
proof -
  obtain mock g1 where m: "mock_prices 60 100 g = (mock, g1)" by (cases "mock_prices 60 100 g")
  from mock_prices_length [OF m] m assms show ?thesis
    by (simp add: parse_price_data_def)
qed


lemma parse_price_data_None:
  "fst (parse_price_data dv pf g s) = None \<longleftrightarrow> scan_prices dv pf s = None"
  by (auto simp: parse_price_data_def split: option.splits prod.splits)

lemma parse_price_data_length:
  assumes "parse_price_data dv pf g s = (Some ps, g1)"
  shows "30 \<le> length ps"
proof (cases "scan_prices dv pf s")
  case None
  with assms show ?thesis by (simp add: parse_price_data_def)
next
  case (Some prices)
  show ?thesis
  proof (cases "length prices < 30")
    case True
    from parse_price_data_short [OF Some True, of g] assms show ?thesis by auto
  next
    case False
    with Some assms show ?thesis by (simp add: parse_price_data_def)
  qed
qed

lemma length_calculate_returns: "length (calculate_returns ps) = length ps - 1"
  by (simp add: calculate_returns_def)

lemma calculate_market_risk_Some:
  "returns \<noteq> [] \<Longrightarrow> \<exists>mr g1. calculate_market_risk g returns md = Some (mr, g1)"
  by (cases md) (simp_all add: calculate_market_risk_def parse_market_returns_def
      normals_map Let_def)

lemma extract_volume_data_None:
  "fst (extract_volume_data dv pf g s) = None \<longleftrightarrow>
   collect (parse_volume_line dv pf) (py_split 10 s) = None"
  by (auto simp: extract_volume_data_def split: option.splits prod.splits)

text \<open>Past the gate the analysis is the three computations in sequence.\<close>

lemma analyze_after_gate:
  assumes p: "parse_price_data dv pf g s = (Some ps, g1)"
  shows "\<exists>mr g2 vm g3.
           calculate_market_risk g1 (calculate_returns ps) md = Some (mr, g2) \<and>
           calculate_var_metrics g2 (calculate_returns ps) = Some (vm, g3) \<and>
           fst (analyze_risk_metrics dv pf g s md fd) =
             (if collect (parse_volume_line dv pf) (py_split 10 s) = None
              then Inl AnalysisFailed
              else Inr \<lparr> price_data_points = length ps,
                         analysis_period = length ps - 1,
                         ra_market_risk = mr,
                         ra_volatility_metrics =
                           calculate_volatility_metrics (calculate_returns ps),
                         ra_var_metrics = vm \<rparr>)"
proof -
  have len: "30 \<le> length ps" by (rule parse_price_data_length [OF p])
  then have ne: "calculate_returns ps \<noteq> []"
    using length_calculate_returns [of ps] by (cases "calculate_returns ps") auto
  obtain mr g2 where mr: "calculate_market_risk g1 (calculate_returns ps) md = Some (mr, g2)"
    using calculate_market_risk_Some [OF ne] by blast
  obtain vm g3 where vm: "calculate_var_metrics g2 (calculate_returns ps) = Some (vm, g3)"
    using calculate_var_metrics_Some [OF ne] by blast
  obtain vs g4 where vs: "extract_volume_data dv pf g3 s = (vs, g4)"
    by (cases "extract_volume_data dv pf g3 s")
  have vn: "vs = None \<longleftrightarrow> collect (parse_volume_line dv pf) (py_split 10 s) = None"
    using extract_volume_data_None [of dv pf g3 s] vs by simp
  have "fst (analyze_risk_metrics dv pf g s md fd) =
      (if vs = None then Inl AnalysisFailed
       else Inr \<lparr> price_data_points = length ps, analysis_period = length ps - 1,
                  ra_market_risk = mr,
                  ra_volatility_metrics = calculate_volatility_metrics (calculate_returns ps),
                  ra_var_metrics = vm \<rparr>)"
    using len by (cases vs)
      (simp_all add: analyze_risk_metrics_def p mr vm vs Let_def length_calculate_returns)
  with mr vm vn show ?thesis by auto
qed

lemma gate_iff_scan_raised:
  "fst (analyze_risk_metrics dv pf g s md fd) = Inl InsufficientPriceData \<longleftrightarrow>
   scan_prices dv pf s = None"
proof (cases "parse_price_data dv pf g s")
  case (Pair r g1)
  show ?thesis
  proof (cases r)
    case None
    with Pair parse_price_data_None [of dv pf g s] show ?thesis
      by (simp add: analyze_risk_metrics_def)
  next
    case (Some ps)
    with Pair have p: "parse_price_data dv pf g s = (Some ps, g1)" by simp
    from analyze_after_gate [OF p, of md fd]
    have "fst (analyze_risk_metrics dv pf g s md fd) \<noteq> Inl InsufficientPriceData"
      by (auto split: if_splits)
    moreover have "scan_prices dv pf s \<noteq> None"
      using parse_price_data_None [of dv pf g s] p by auto
    ultimately show ?thesis by simp
  qed
qed

lemma analyze_short_text:
  assumes "scan_prices dv pf s = Some prices" and "length prices < 30"
    and "collect (parse_volume_line dv pf) (py_split 10 s) \<noteq> None"
  shows "map_sum id price_data_points (fst (analyze_risk_metrics dv pf g s md fd)) = Inr 60"
proof -
  obtain mock g1 where p: "parse_price_data dv pf g s = (Some mock, g1)" "length mock = 60"
    using parse_price_data_short [OF assms(1,2)] by blast
  from analyze_after_gate [OF p(1), of md fd] assms(3) p(2) show ?thesis by auto
qed

text \<open>
  Claim C3, as amended. When fewer than 30 price points are parsed from the text,
  \<open>_parse_price_data\<close> replaces them by a synthetic random walk of 60 points, so the
  length-30 gate of \<open>analyze_risk_metrics\<close> does not fire: the metrics are computed on
  the synthetic series and the result reports 60 data points (unless a volume line
  later raises). The gate's error is returned exactly when parsing itself raises, for
  instance on a labelled price line whose number is not a float.
\<close>

theorem short_price_text_uses_mock_series:
  assumes "scan_prices dv pf s = Some prices" and "length prices < 30"
  shows "(\<exists>mock g1. parse_price_data dv pf g s = (Some mock, g1) \<and> length mock = 60 \<and>
            mock_prices 60 100 g = (mock, g1))
       \<and> fst (analyze_risk_metrics dv pf g s md fd) \<noteq> Inl InsufficientPriceData
       \<and> (collect (parse_volume_line dv pf) (py_split 10 s) \<noteq> None \<longrightarrow>
            map_sum id price_data_points (fst (analyze_risk_metrics dv pf g s md fd)) = Inr 60)
       \<and> (fst (analyze_risk_metrics dv pf g t md fd) = Inl InsufficientPriceData
            \<longleftrightarrow> scan_prices dv pf t = None)"
  using parse_price_data_short [OF assms, of g] gate_iff_scan_raised [of dv pf g s md fd]
    gate_iff_scan_raised [of dv pf g t md fd] analyze_short_text [OF assms, of g md fd] assms(1)
  by auto

lemma scan_empty_text: "scan_prices dv pf [] = Some []"
  by (simp add: scan_prices_def parse_price_line_def py_strip_def str_close_price_cn_def
      str_price_cn_def str_close_def asc_def)

lemma volumes_empty_text: "collect (parse_volume_line dv pf) (py_split 10 []) = Some []"
  by (simp add: parse_volume_line_def str_volume_cn_def str_volume_def asc_def)

lemma scan_bad_number:
  "scan_prices ascii_digits simple_float (asc ''Close: 1.2.3'') = None"
  by (simp add: scan_prices_def parse_price_line_def labelled_number_def py_strip_def
      py_isspace_def asc_def str_close_price_cn_def str_price_cn_def str_close_def
      re_search_number_def is_digit_def ascii_digits_def simple_float_def Let_def)

text \<open>
  On the empty text no price is parsed, the result reports the 60 synthetic points, and
  the gate's error appears on \<open>Close: 1.2.3\<close>, where \<open>float\<close> raises.
\<close>

theorem short_price_text_uses_mock_series_witness:
  "scan_prices ascii_digits simple_float [] = Some [] \<and> length ([] :: real list) < 30 \<and>
   map_sum id price_data_points
     (fst (analyze_risk_metrics ascii_digits simple_float (spike 1) [] None None)) = Inr 60 \<and>
   fst (analyze_risk_metrics ascii_digits simple_float (spike 1) (asc ''Close: 1.2.3'')
     None None) = Inl InsufficientPriceData"
  using short_price_text_uses_mock_series [OF scan_empty_text, of ascii_digits simple_float
      "spike 1" None None "asc ''Close: 1.2.3''"]
    scan_empty_text [of ascii_digits simple_float]
    volumes_empty_text [of ascii_digits simple_float] scan_bad_number
  by simp

lemma scan_one_price:
  "scan_prices ascii_digits simple_float (asc ''Close: 10'') = Some [10]"
  by (simp add: scan_prices_def parse_price_line_def labelled_number_def py_strip_def
      py_isspace_def asc_def str_close_price_cn_def str_price_cn_def str_close_def
      re_search_number_def is_digit_def ascii_digits_def simple_float_def py_int_def Let_def)

lemma volumes_one_price:
  "collect (parse_volume_line ascii_digits simple_float) (py_split 10 (asc ''Close: 10''))
     = Some []"
  by (simp add: parse_volume_line_def str_volume_cn_def str_volume_def asc_def)

text \<open>
  The claim as stated fails on the one-line text \<open>Close: 10\<close>: one price point is
  parsed, fewer than 30, and the analyzer returns no error but a result over 60 data
  points.
\<close>

theorem short_price_text_not_rejected:
  "scan_prices ascii_digits simple_float (asc ''Close: 10'') = Some [10] \<and>
   length [10 :: real] < 30 \<and>
   map_sum id price_data_points
     (fst (analyze_risk_metrics ascii_digits simple_float (\<lambda>i. 0) (asc ''Close: 10'')
        None None)) = Inr 60"
  using scan_one_price analyze_short_text [OF scan_one_price, of "\<lambda>i. 0" None None]
    volumes_one_price
  by simp

subsection \<open>Which risk metrics depend on the generator\<close>















subsection \<open>CVaR against VaR under float64 rounding\<close>

lemma round_half_even_error: "\<bar>of_int (round_half_even y) - y\<bar> \<le> 1 / 2"
proof -
  define f where "f = \<lfloor>y\<rfloor>"
  have "of_int f \<le> y" "y < of_int f + 1" by (simp_all add: f_def)
  then show ?thesis
    unfolding round_half_even_def Let_def f_def [symmetric]
    by (auto simp: abs_if)
qed

lemma rnd64_eval:
  assumes "2 powr of_int e \<le> \<bar>x\<bar>" and "\<bar>x\<bar> < 2 powr of_int (e + 1)"
  shows "rnd64 x = of_int (round_half_even (x / 2 powr (of_int e - 52))) * 2 powr (of_int e - 52)"
proof -
  have pos: "0 < \<bar>x\<bar>" using assms(1) by (smt (verit) powr_gt_zero)
  then have "\<lfloor>log 2 \<bar>x\<bar>\<rfloor> = e"
    using assms by (subst floor_log_eq_powr_iff) auto
  with pos show ?thesis by (auto simp: rnd64_def Let_def)
qed

lemma rnd64_error: "\<bar>rnd64 x - x\<bar> \<le> unit_roundoff * \<bar>x\<bar>"
proof (cases "x = 0")
  case True
  then show ?thesis by (simp add: rnd64_def)
next
  case False
  define e where "e = \<lfloor>log 2 \<bar>x\<bar>\<rfloor>"
  define ulp :: real where "ulp = 2 powr (of_int e - 52)"
  have pos: "0 < \<bar>x\<bar>" using False by simp
  have "of_int e \<le> log 2 \<bar>x\<bar>" by (simp add: e_def)
  then have "2 powr of_int e \<le> 2 powr log 2 \<bar>x\<bar>" by (simp add: powr_mono)
  then have lo: "2 powr of_int e \<le> \<bar>x\<bar>" using pos by simp
  have up: "0 < ulp" by (simp add: ulp_def)
  have r: "rnd64 x = of_int (round_half_even (x / ulp)) * ulp"
    using False by (simp add: rnd64_def Let_def e_def ulp_def)
  have "\<bar>rnd64 x - x\<bar> = \<bar>of_int (round_half_even (x / ulp)) - x / ulp\<bar> * ulp"
  proof -
    have "rnd64 x - x = (of_int (round_half_even (x / ulp)) - x / ulp) * ulp"
      using up by (simp add: r field_simps)
    then show ?thesis using up by (simp add: abs_mult)
  qed
  also have "\<dots> \<le> 1 / 2 * ulp"
    using round_half_even_error [of "x / ulp"] up by (intro mult_right_mono) auto
  also have "1 / 2 * ulp = unit_roundoff * 2 powr of_int e"
  proof -
    have "ulp = 2 powr of_int e * 2 powr (- 52)"
      unfolding ulp_def by (simp add: powr_add [symmetric])
    also have "(2::real) powr (- 52) = 1 / 2 ^ 52" by (simp add: powr_neg_numeral)
    finally show ?thesis by (simp add: unit_roundoff_def)
  qed
  also have "\<dots> \<le> unit_roundoff * \<bar>x\<bar>"
    using lo by (intro mult_left_mono) (simp_all add: unit_roundoff_def)
  finally show ?thesis .
qed


lemma leaves_not_Nil: "leaves t \<noteq> []"
  by (induction t) auto

lemma length_leaves_pos: "0 < length (leaves t)"
  using leaves_not_Nil [of t] by simp

lemma unit_roundoff_pos: "0 < unit_roundoff"
  by (simp add: unit_roundoff_def)

lemma abs_sum_list_le: "\<bar>sum_list xs\<bar> \<le> sum_list (map abs (xs :: real list))"
  by (induction xs) auto

lemma sum_list_abs_nonneg: "0 \<le> sum_list (map abs (xs :: real list))"
  by (induction xs) auto

text \<open>The classical bound for a sum of n floats in any order: n - 1 rounded additions.\<close>

lemma eval64_error:
  "\<bar>eval64 t - sum_list (leaves t)\<bar>
     \<le> ((1 + unit_roundoff) ^ (length (leaves t) - 1) - 1) * sum_list (map abs (leaves t))"
proof (induction t)
  case (Leaf x)
  show ?case by simp
next
  case (Add l r)
  define u where "u = unit_roundoff"
  define a where "a = eval64 l"
  define b where "b = eval64 r"
  define Sa where "Sa = sum_list (leaves l)"
  define Sb where "Sb = sum_list (leaves r)"
  define A where "A = sum_list (map abs (leaves l))"
  define B where "B = sum_list (map abs (leaves r))"
  define n where "n = length (leaves l)"
  define m where "m = length (leaves r)"
  have u: "0 < u" by (simp add: u_def unit_roundoff_pos)
  have n: "0 < n" and m: "0 < m" by (simp_all add: n_def m_def leaves_not_Nil)
  have A: "0 \<le> A" and B: "0 \<le> B" by (simp_all add: A_def B_def sum_list_abs_nonneg)
  have SaA: "\<bar>Sa\<bar> \<le> A" and SbB: "\<bar>Sb\<bar> \<le> B"
    by (simp_all add: Sa_def Sb_def A_def B_def abs_sum_list_le)
  have ea: "\<bar>a - Sa\<bar> \<le> ((1 + u) ^ (n - 1) - 1) * A"
    using Add.IH(1) by (simp add: a_def Sa_def A_def n_def u_def)
  have eb: "\<bar>b - Sb\<bar> \<le> ((1 + u) ^ (m - 1) - 1) * B"
    using Add.IH(2) by (simp add: b_def Sb_def B_def m_def u_def)
  have absa: "\<bar>a\<bar> \<le> (1 + u) ^ (n - 1) * A"
  proof -
    have "\<bar>a\<bar> \<le> \<bar>Sa\<bar> + \<bar>a - Sa\<bar>" by simp
    also have "\<dots> \<le> A + ((1 + u) ^ (n - 1) - 1) * A" using SaA ea by simp
    also have "\<dots> = (1 + u) ^ (n - 1) * A" by (simp add: algebra_simps)
    finally show ?thesis .
  qed
  have absb: "\<bar>b\<bar> \<le> (1 + u) ^ (m - 1) * B"
  proof -
    have "\<bar>b\<bar> \<le> \<bar>Sb\<bar> + \<bar>b - Sb\<bar>" by simp
    also have "\<dots> \<le> B + ((1 + u) ^ (m - 1) - 1) * B" using SbB eb by simp
    also have "\<dots> = (1 + u) ^ (m - 1) * B" by (simp add: algebra_simps)
    finally show ?thesis .
  qed
  have pn: "(1 + u) * (1 + u) ^ (n - 1) = (1 + u) ^ n"
    using n by (cases n) simp_all
  have pm: "(1 + u) * (1 + u) ^ (m - 1) = (1 + u) ^ m"
    using m by (cases m) simp_all
  have r: "\<bar>rnd64 (a + b) - (a + b)\<bar> \<le> u * (\<bar>a\<bar> + \<bar>b\<bar>)"
  proof -
    have "\<bar>rnd64 (a + b) - (a + b)\<bar> \<le> u * \<bar>a + b\<bar>"
      using rnd64_error [of "a + b"] by (simp add: u_def)
    also have "\<dots> \<le> u * (\<bar>a\<bar> + \<bar>b\<bar>)" using u by (intro mult_left_mono) auto
    finally show ?thesis .
  qed
  have "\<bar>rnd64 (a + b) - (Sa + Sb)\<bar>
      \<le> \<bar>rnd64 (a + b) - (a + b)\<bar> + \<bar>a - Sa\<bar> + \<bar>b - Sb\<bar>" by simp
  also have "\<dots> \<le> u * (\<bar>a\<bar> + \<bar>b\<bar>) + ((1 + u) ^ (n - 1) - 1) * A + ((1 + u) ^ (m - 1) - 1) * B"
    using r ea eb by simp
  also have "\<dots> \<le> u * ((1 + u) ^ (n - 1) * A + (1 + u) ^ (m - 1) * B)
      + ((1 + u) ^ (n - 1) - 1) * A + ((1 + u) ^ (m - 1) - 1) * B"
    using absa absb u by (simp add: mult_left_mono add_mono)
  also have "\<dots> = ((1 + u) * (1 + u) ^ (n - 1) - 1) * A + ((1 + u) * (1 + u) ^ (m - 1) - 1) * B"
    by (simp add: algebra_simps)
  also have "\<dots> = ((1 + u) ^ n - 1) * A + ((1 + u) ^ m - 1) * B"
    by (simp only: pn pm)
  also have "\<dots> \<le> ((1 + u) ^ (n + m - 1) - 1) * A + ((1 + u) ^ (n + m - 1) - 1) * B"
  proof -
    have "(1 + u) ^ n \<le> (1 + u) ^ (n + m - 1)" "(1 + u) ^ m \<le> (1 + u) ^ (n + m - 1)"
      using u n m by (auto intro!: power_increasing)
    then show ?thesis using A B by (intro add_mono mult_right_mono) auto
  qed
  also have "\<dots> = ((1 + u) ^ (n + m - 1) - 1) * (A + B)" by (simp add: algebra_simps)
  finally show ?case
    by (simp add: a_def b_def Sa_def Sb_def A_def B_def n_def m_def u_def)
qed

lemma sum_list_map_insort:
  "sum_list (map f (insort x xs)) = (f x :: real) + sum_list (map f xs)"
  by (induction xs) auto

lemma sum_list_map_sort: "sum_list (map f (sort xs)) = (sum_list (map f xs) :: real)"
  by (induction xs) (auto simp: sum_list_map_insort)

lemma sum_list_sort: "sum_list (sort xs) = (sum_list xs :: real)"
  using sum_list_map_sort [of "\<lambda>x. x" xs] by simp



lemma mean64_error:
  assumes "adds_all t xs" and "xs \<noteq> []"
  shows "\<bar>rnd64 (eval64 t / real (length xs)) - sum_list xs / real (length xs)\<bar>
           \<le> ((1 + unit_roundoff) ^ length xs - 1) * (sum_list (map abs xs) / real (length xs))"
proof -
  define u where "u = unit_roundoff"
  define k where "k = length xs"
  define S where "S = sum_list xs"
  define A where "A = sum_list (map abs xs)"
  define s where "s = eval64 t"
  have srt: "sort (leaves t) = sort xs" using assms(1) by (simp add: adds_all_def)
  have len: "length (leaves t) = k"
    using arg_cong [OF srt, of length] by (simp add: k_def)
  have sum: "sum_list (leaves t) = S"
    using sum_list_sort [of "leaves t"] sum_list_sort [of xs] srt by (simp add: S_def)
  have asum: "sum_list (map abs (leaves t)) = A"
    using sum_list_map_sort [of abs "leaves t"] sum_list_map_sort [of abs xs] srt
    by (simp add: A_def)
  have u: "0 < u" by (simp add: u_def unit_roundoff_pos)
  have k: "0 < k" using assms(2) by (simp add: k_def)
  have A: "0 \<le> A" by (simp add: A_def sum_list_abs_nonneg)
  have SA: "\<bar>S\<bar> \<le> A" by (simp add: S_def A_def abs_sum_list_le)
  have es: "\<bar>s - S\<bar> \<le> ((1 + u) ^ (k - 1) - 1) * A"
    using eval64_error [of t] by (simp add: s_def len sum asum u_def)
  have "\<bar>s\<bar> \<le> \<bar>S\<bar> + \<bar>s - S\<bar>" by simp
  also have "\<dots> \<le> A + ((1 + u) ^ (k - 1) - 1) * A" using SA es by simp
  also have "\<dots> = (1 + u) ^ (k - 1) * A" by (simp add: algebra_simps)
  finally have abss: "\<bar>s\<bar> \<le> (1 + u) ^ (k - 1) * A" .
  have pk: "(1 + u) * (1 + u) ^ (k - 1) = (1 + u) ^ k" using k by (cases k) simp_all
  have kr: "0 < real k" using k by simp
  have "\<bar>rnd64 (s / real k) - s / real k\<bar> \<le> u * \<bar>s / real k\<bar>"
    using rnd64_error [of "s / real k"] by (simp add: u_def)
  also have "\<dots> = u * \<bar>s\<bar> / real k" using kr by (simp add: abs_divide)
  also have "\<dots> \<le> u * ((1 + u) ^ (k - 1) * A) / real k"
    using abss u kr by (intro divide_right_mono mult_left_mono) auto
  finally have e1: "\<bar>rnd64 (s / real k) - s / real k\<bar> \<le> u * ((1 + u) ^ (k - 1) * A) / real k" .
  have e2: "\<bar>s / real k - S / real k\<bar> \<le> ((1 + u) ^ (k - 1) - 1) * A / real k"
  proof -
    have "\<bar>s / real k - S / real k\<bar> = \<bar>s - S\<bar> / real k"
      using kr by (simp add: diff_divide_distrib [symmetric] abs_divide)
    also have "\<dots> \<le> ((1 + u) ^ (k - 1) - 1) * A / real k"
      using es kr by (intro divide_right_mono) auto
    finally show ?thesis .
  qed
  have "\<bar>rnd64 (s / real k) - S / real k\<bar>
      \<le> \<bar>rnd64 (s / real k) - s / real k\<bar> + \<bar>s / real k - S / real k\<bar>" by simp
  also have "\<dots> \<le> u * ((1 + u) ^ (k - 1) * A) / real k + ((1 + u) ^ (k - 1) - 1) * A / real k"
    using e1 e2 by simp
  also have "\<dots> = ((1 + u) * (1 + u) ^ (k - 1) - 1) * A / real k"
    by (simp add: algebra_simps add_divide_distrib diff_divide_distrib)
  also have "\<dots> = ((1 + u) ^ k - 1) * (A / real k)" by (simp only: pk) simp
  finally show ?thesis by (simp add: s_def k_def S_def A_def u_def)
qed

text \<open>
  Claim C5, as amended. Every return that \<open>_calculate_var_metrics\<close> averages into
  \<open>cvar_95\<close> is at or below \<open>var_95\<close>, so the exact mean of that tail is at most
  \<open>var_95\<close>. The reported \<open>cvar_95\<close> is the float64 mean of the tail: it differs from
  the exact mean by at most \<open>((1 + 2^-53)^k - 1)\<close> times the mean absolute tail
  return, for a tail of \<open>k\<close> returns summed in any order, and so it is at most \<open>var_95\<close>
  plus that bound. With an empty tail \<open>cvar_95\<close> is \<open>None\<close>. This holds whatever
  percentile routine produced \<open>var_95\<close>, as long as no sum and no quotient leaves the
  range of normal float64 numbers (the exponent of \<open>rnd64\<close> is unbounded).
\<close>

theorem cvar_95_le_var_95_up_to_rounding:
  assumes "var_cvar_95_float64 pct order returns = Some (v95, cv)"
    and "tail = filter (\<lambda>r. r \<le> v95) returns"
    and "adds_all (order tail) tail"
  shows "list_all (\<lambda>r. r \<le> v95) tail
       \<and> (tail = [] \<longrightarrow> cv = None)
       \<and> (tail \<noteq> [] \<longrightarrow>
            (\<exists>c. cv = Some c
               \<and> sum_list tail / real (length tail) \<le> v95
               \<and> \<bar>c - sum_list tail / real (length tail)\<bar>
                   \<le> ((1 + unit_roundoff) ^ length tail - 1)
                       * (sum_list (map abs tail) / real (length tail))
               \<and> c \<le> v95 + ((1 + unit_roundoff) ^ length tail - 1)
                              * (sum_list (map abs tail) / real (length tail))))"
proof (intro conjI impI)
  show "list_all (\<lambda>r. r \<le> v95) tail" by (simp add: assms(2) list_all_iff)
next
  have cv: "cv = tail_mean64 order returns v95"
    using assms(1) by (auto simp: var_cvar_95_float64_def split: option.splits)
  {
    assume "tail = []"
    then show "cv = None" by (simp add: cv tail_mean64_def assms(2) [symmetric] Let_def)
  }
  assume ne: "tail \<noteq> []"
  define c where "c = rnd64 (eval64 (order tail) / real (length tail))"
  define m where "m = sum_list tail / real (length tail)"
  define bound where
    "bound = ((1 + unit_roundoff) ^ length tail - 1) * (sum_list (map abs tail) / real (length tail))"
  have c: "cv = Some c"
    using ne by (simp add: cv tail_mean64_def assms(2) [symmetric] Let_def c_def)
  have pos: "0 < real (length tail)" using ne by simp
  have "sum_list tail \<le> real (length tail) * v95"
    by (rule sum_list_le_bound) (simp add: assms(2))
  then have m: "m \<le> v95"
    unfolding m_def using pos by (simp add: pos_divide_le_eq mult.commute)
  have e: "\<bar>c - m\<bar> \<le> bound"
    unfolding c_def m_def bound_def by (rule mean64_error [OF assms(3) ne])
  then have "c \<le> m + bound" by linarith
  with m have "c \<le> v95 + bound" by linarith
  with c m e show "\<exists>c. cv = Some c
               \<and> sum_list tail / real (length tail) \<le> v95
               \<and> \<bar>c - sum_list tail / real (length tail)\<bar>
                   \<le> ((1 + unit_roundoff) ^ length tail - 1)
                       * (sum_list (map abs tail) / real (length tail))
               \<and> c \<le> v95 + ((1 + unit_roundoff) ^ length tail - 1)
                              * (sum_list (map abs tail) / real (length tail))"
    unfolding m_def bound_def by blast
qed

lemma np_percentile64_interpolated:
  assumes "xs \<noteq> []"
    and "rnd64 (q / 100) = quantile"
    and "rnd64 (real (length xs - 1) * quantile) = virtual"
    and "virtual < real (length xs - 1)"
    and "nat \<lfloor>virtual\<rfloor> = lo"
    and "rnd64 (virtual - real lo) = gamma"
    and "gamma < 1 / 2"
    and "sort xs ! lo = a" and "sort xs ! (lo + 1) = b"
    and "rnd64 (b - a) = diff"
    and "rnd64 (a + rnd64 (diff * gamma)) = r"
  shows "np_percentile64 xs q = Some r"
  using assms by (simp add: np_percentile64_def Let_def)

lemma rnd64_zero: "rnd64 0 = 0"
  by (simp add: rnd64_def)

lemma rnd64_quantile: "rnd64 (5 / 100) = 7205759403792794 / 2 ^ 57"
  by (subst rnd64_eval [of "- 5"]) (simp_all add: powr_neg_numeral round_half_even_def Let_def)

lemma rnd64_tenth: "rnd64 float_tenth = float_tenth"
  unfolding float_tenth_def
  by (subst rnd64_eval [of "- 4"]) (simp_all add: powr_neg_numeral round_half_even_def Let_def)

lemma rnd64_two_tenths: "rnd64 (float_tenth + float_tenth) = 2 * float_tenth"
  unfolding float_tenth_def
  by (subst rnd64_eval [of "- 3"]) (simp_all add: powr_neg_numeral round_half_even_def Let_def)

lemma rnd64_three_tenths: "rnd64 (2 * float_tenth + float_tenth) = 5404319552844596 / 2 ^ 54"
  unfolding float_tenth_def
  by (subst rnd64_eval [of "- 2"]) (simp_all add: powr_neg_numeral round_half_even_def Let_def)

lemma rnd64_mean_tenths: "rnd64 (5404319552844596 / 2 ^ 54 / 3) = float_tenth + 1 / 2 ^ 56"
  unfolding float_tenth_def
  by (subst rnd64_eval [of "- 4"]) (simp_all add: powr_neg_numeral round_half_even_def Let_def)

lemma mean64_three_tenths:
  "rnd64 (eval64 (left_to_right [float_tenth, float_tenth, float_tenth]) / real 3)
     = float_tenth + 1 / 2 ^ 56"
proof -
  have "eval64 (left_to_right [float_tenth, float_tenth, float_tenth])
          = rnd64 (rnd64 (float_tenth + float_tenth) + float_tenth)"
    by (simp only: left_to_right_def list.case foldl.simps eval64.simps)
  also have "\<dots> = 5404319552844596 / 2 ^ 54"
    by (simp only: rnd64_two_tenths rnd64_three_tenths)
  finally show ?thesis by (simp only: of_nat_numeral rnd64_mean_tenths)
qed

lemma percentile64_three_tenths:
  "np_percentile64 [float_tenth, float_tenth, float_tenth] 5 = Some float_tenth"
proof (rule np_percentile64_interpolated [where lo = 0 and a = float_tenth and b = float_tenth
      and diff = 0 and gamma = float_tenth and virtual = float_tenth])
  show "rnd64 (5 / 100) = 7205759403792794 / 2 ^ 57" by (rule rnd64_quantile)
  show "rnd64 (real (length [float_tenth, float_tenth, float_tenth] - 1)
               * (7205759403792794 / 2 ^ 57)) = float_tenth"
    unfolding float_tenth_def
    by (subst rnd64_eval [of "- 4"]) (simp_all add: powr_neg_numeral round_half_even_def Let_def)
  show "nat \<lfloor>float_tenth\<rfloor> = 0" by (simp add: float_tenth_def)
  show "rnd64 (float_tenth - real 0) = float_tenth" by (simp add: rnd64_tenth)
  show "rnd64 (float_tenth + rnd64 (0 * float_tenth)) = float_tenth"
    by (simp add: rnd64_zero rnd64_tenth)
qed (simp_all add: float_tenth_def rnd64_zero)

lemma sorted_flat_tail: "sort flat_tail_returns = flat_tail_returns"
  by (rule sorted_sort_id) (simp add: flat_tail_returns_def float_tenth_def sorted_append)

lemma percentile64_flat_tail: "np_percentile64 flat_tail_returns 5 = Some float_tenth"
proof (rule np_percentile64_interpolated [where lo = 1 and a = float_tenth and b = float_tenth
      and diff = 0 and gamma = "1801439850948199 / 2 ^ 52"
      and virtual = "6305039478318695 / 2 ^ 52"])
  show "flat_tail_returns \<noteq> []" by (simp add: flat_tail_returns_def)
  show "rnd64 (5 / 100) = 7205759403792794 / 2 ^ 57" by (rule rnd64_quantile)
  show "rnd64 (real (length flat_tail_returns - 1) * (7205759403792794 / 2 ^ 57))
          = 6305039478318695 / 2 ^ 52"
    unfolding flat_tail_returns_def
    by (subst rnd64_eval [of 0]) (simp_all add: powr_neg_numeral round_half_even_def Let_def)
  show "6305039478318695 / 2 ^ 52 < real (length flat_tail_returns - 1)"
    by (simp add: flat_tail_returns_def)
  show "nat \<lfloor>6305039478318695 / 2 ^ 52 :: real\<rfloor> = 1" by simp
  show "rnd64 (6305039478318695 / 2 ^ 52 - real 1) = 1801439850948199 / 2 ^ 52"
    by (subst rnd64_eval [of "- 2"]) (simp_all add: powr_neg_numeral round_half_even_def Let_def)
  show "(1801439850948199 / 2 ^ 52 :: real) < 1 / 2" by simp
  show "sort flat_tail_returns ! 1 = float_tenth"
    by (simp add: sorted_flat_tail) (simp add: flat_tail_returns_def)
  show "sort flat_tail_returns ! (1 + 1) = float_tenth"
    by (simp add: sorted_flat_tail) (simp add: flat_tail_returns_def)
  show "rnd64 (float_tenth - float_tenth) = 0" by (simp add: rnd64_zero)
  show "rnd64 (float_tenth + rnd64 (0 * (1801439850948199 / 2 ^ 52))) = float_tenth"
    by (simp add: rnd64_zero rnd64_tenth)
qed

lemma tail_flat: "filter (\<lambda>r. r \<le> float_tenth) flat_tail_returns
    = [float_tenth, float_tenth, float_tenth]"
  by (simp add: flat_tail_returns_def) (simp add: float_tenth_def)

lemma adds_all_left_to_right3: "adds_all (left_to_right [x, y, z]) [x, y, z]"
  by (simp add: adds_all_def left_to_right_def)

text \<open>
  At three returns equal to the float 0.1 the 5th percentile is 0.1, all three are in
  the tail, and their float64 mean is 0.1 + 2^-56, inside the bound.
\<close>

theorem cvar_95_le_var_95_up_to_rounding_witness:
  "var_cvar_95_float64 np_percentile64 left_to_right [float_tenth, float_tenth, float_tenth]
     = Some (float_tenth, Some (float_tenth + 1 / 2 ^ 56)) \<and>
   adds_all (left_to_right [float_tenth, float_tenth, float_tenth])
     [float_tenth, float_tenth, float_tenth] \<and>
   float_tenth + 1 / 2 ^ 56
     \<le> float_tenth
         + ((1 + unit_roundoff) ^ length [float_tenth, float_tenth, float_tenth] - 1)
           * (sum_list (map abs [float_tenth, float_tenth, float_tenth])
              / real (length [float_tenth, float_tenth, float_tenth]))"
proof -
  let ?rs = "[float_tenth, float_tenth, float_tenth]"
  have t: "?rs = filter (\<lambda>r. r \<le> float_tenth) ?rs" by simp
  have v: "var_cvar_95_float64 np_percentile64 left_to_right ?rs
     = Some (float_tenth, Some (float_tenth + 1 / 2 ^ 56))"
    using mean64_three_tenths
    by (simp add: var_cvar_95_float64_def percentile64_three_tenths tail_mean64_def)
  from cvar_95_le_var_95_up_to_rounding [OF v t adds_all_left_to_right3]
  show ?thesis using v adds_all_left_to_right3 [of float_tenth float_tenth float_tenth] by simp
qed

text \<open>
  The claim as stated fails on a series of 29 returns whose three lowest are the float
  0.1: \<open>var_95\<close> is 0.1 and \<open>cvar_95\<close> is the float64 mean of 0.1, 0.1, 0.1, which is
  0.1 + 2^-56 (printed 0.10000000000000002) and so greater than \<open>var_95\<close>.
\<close>

theorem cvar_95_exceeds_var_95:
  "var_cvar_95_float64 np_percentile64 left_to_right flat_tail_returns
     = Some (float_tenth, Some (float_tenth + 1 / 2 ^ 56)) \<and>
   float_tenth + 1 / 2 ^ 56 > float_tenth"
  using mean64_three_tenths
  by (simp add: var_cvar_95_float64_def percentile64_flat_tail tail_mean64_def tail_flat)

subsection \<open>RSI and Bollinger position on a flat price series\<close>

lemma last_window_replicate: "w \<le> n \<Longrightarrow> last_window w (replicate n c) = replicate w c"
  by (simp add: last_window_def)

lemma butlast_replicate_same: "butlast (replicate n c) = replicate (n - 1) c"
proof (cases n)
  case 0
  then show ?thesis by simp
next
  case (Suc m)
  have "replicate (Suc m) c = replicate m c @ [c]"
    by (simp add: replicate_append_same)
  then show ?thesis using Suc by (simp only: butlast_snoc) simp
qed

lemma deltas_replicate: "deltas (replicate n c) = replicate (n - 1) 0"
  by (simp add: deltas_def butlast_replicate_same)

lemma gains_replicate: "0 < n \<Longrightarrow> gains (replicate n c) = replicate n 0"
proof -
  assume "0 < n"
  then obtain m where m: "n = Suc m" by (cases n) auto
  have "gains (replicate n c) = 0 # map (\<lambda>d. if d > 0 then d else 0) (replicate (n - 1) 0)"
    unfolding gains_def deltas_replicate using m by simp
  then show ?thesis using m by simp
qed

lemma losses_replicate: "0 < n \<Longrightarrow> losses (replicate n c) = replicate n 0"
proof -
  assume "0 < n"
  then obtain m where m: "n = Suc m" by (cases n) auto
  have "losses (replicate n c) =
      0 # map (\<lambda>d. - (if d < 0 then d else 0)) (replicate (n - 1) 0)"
    unfolding losses_def deltas_replicate using m by simp
  then show ?thesis using m by simp
qed

lemma sum_list_replicate_zero: "sum_list (replicate k (0::real)) = 0"
  by (induction k) simp_all

lemma rsi_last_flat:
  assumes "14 \<le> n"
  shows "rsi_last (replicate n c) = NaN"
proof -
  have n: "0 < n" using assms by simp
  have "rolling_mean_last 14 (gains (replicate n c)) = 0"
    "rolling_mean_last 14 (losses (replicate n c)) = 0"
    using assms
    by (simp_all add: rolling_mean_last_def gains_replicate [OF n] losses_replicate [OF n]
        last_window_replicate sum_list_replicate_zero)
  then show ?thesis
    using assms by (simp add: rsi_last_def fl_div_def fl_add_def fl_sub_def fl_neg_def)
qed

lemma sum_list_nonneg_real: "(\<forall>x \<in> set xs. (0::real) \<le> x) \<Longrightarrow> 0 \<le> sum_list xs"
  by (induction xs) auto

lemma rolling_mean_last_nonneg:
  assumes "\<forall>x \<in> set xs. 0 \<le> x"
  shows "0 \<le> rolling_mean_last w xs"
proof -
  have "\<forall>x \<in> set (last_window w xs). 0 \<le> x"
    using assms by (auto simp: last_window_def dest: in_set_dropD)
  then show ?thesis
    by (simp add: rolling_mean_last_def sum_list_nonneg_real)
qed

lemma gains_nonneg: "\<forall>x \<in> set (gains closes). 0 \<le> x"
  by (auto simp: gains_def)

lemma losses_nonneg: "\<forall>x \<in> set (losses closes). 0 \<le> x"
  by (auto simp: losses_def)

text \<open>
  Where the RSI is a number it lies in [0, 100]: the formula is sound apart from the
  window without any price change.
\<close>

lemma rsi_last_range:
  assumes "rsi_last closes = Num v"
  shows "0 \<le> v \<and> v \<le> 100"
proof -
  define gain where "gain = rolling_mean_last 14 (gains closes)"
  define loss where "loss = rolling_mean_last 14 (losses closes)"
  have g: "0 \<le> gain" and l: "0 \<le> loss"
    by (simp_all add: gain_def loss_def rolling_mean_last_nonneg gains_nonneg losses_nonneg)
  have len: "\<not> length closes < 14" using assms by (auto simp: rsi_last_def)
  show ?thesis
  proof (cases "loss = 0")
    case True
    with assms len g show ?thesis
      by (auto simp: rsi_last_def Let_def fl_div_def fl_add_def fl_sub_def fl_neg_def
          gain_def [symmetric] loss_def [symmetric] split: if_splits)
  next
    case False
    with l have lp: "0 < loss" by simp
    have r: "0 \<le> gain / loss" using g lp by simp
    then have pos: "0 < 1 + gain / loss" by linarith
    have v: "v = 100 - 100 / (1 + gain / loss)"
      using assms len False pos
      by (auto simp: rsi_last_def Let_def fl_div_def fl_add_def fl_sub_def fl_neg_def
          gain_def [symmetric] loss_def [symmetric] split: if_splits)
    have "0 < 100 / (1 + gain / loss)" using pos by simp
    moreover have "100 / (1 + gain / loss) \<le> 100"
      using pos r by (simp add: pos_divide_le_eq)
    ultimately show ?thesis using v by simp
  qed
qed

lemma close_flat_bar: "bar_close (flat_bar c) = c"
  by (simp add: flat_bar_def)

text \<open>
  Claim C6. On every valid OHLCV series of at least 252 rows the reported RSI lies in
  [0, 100]. The code at a valid series of 252 rows whose close stays at 10: the
  average gain and the average loss are both 0, \<open>gain / loss\<close> is 0/0, and the
  reported RSI value is \<open>nan\<close>, which is not in [0, 100]; the signal reads neutral.
\<close>

theorem rsi_flat_series_is_nan:
  "valid_ohlcv (replicate 252 (flat_bar 10)) \<and>
   length (replicate 252 (flat_bar 10)) = 252 \<and>
   map_sum id (\<lambda>i. map_option rsi_value (rsi i))
     (calculate_technical_indicators (replicate 252 (flat_bar 10))) = Inr (Some NaN) \<and>
   map_sum id (\<lambda>i. map_option rsi_signal (rsi i))
     (calculate_technical_indicators (replicate 252 (flat_bar 10))) = Inr (Some ''neutral'')"
proof -
  have v: "valid_ohlcv (replicate 252 (flat_bar 10))"
    by (simp add: valid_ohlcv_def list_all_iff flat_bar_def)
  have r: "rsi_last (replicate 252 10) = NaN" by (rule rsi_last_flat) simp
  show ?thesis
    using v by (simp add: calculate_technical_indicators_def close_flat_bar rsi_indicator_def
        r fl_round2_def fl_gt_def fl_lt_def Let_def)
qed

lemma rolling_mean_last_flat:
  "0 < w \<Longrightarrow> w \<le> n \<Longrightarrow> rolling_mean_last w (replicate n c) = c"
  by (simp add: rolling_mean_last_def last_window_replicate sum_list_replicate)

lemma rolling_std_last_flat:
  assumes "0 < w" and "w \<le> n"
  shows "rolling_std_last w (replicate n c) = 0"
proof -
  have m: "sum_list (replicate w c) / real w = c" using assms by (simp add: sum_list_replicate)
  have "map (\<lambda>x. (x - c)\<^sup>2) (replicate w c) = replicate w 0" by simp
  then show ?thesis
    using assms
    by (simp add: rolling_std_last_def last_window_replicate m sum_list_replicate_zero Let_def)
qed

lemma bollinger_flat:
  assumes "20 \<le> n"
  shows "bb_position (bollinger_indicator (replicate n c)) = NaN"
proof -
  have n: "replicate n c \<noteq> []" using assms by auto
  have last: "last (replicate n c) = c" using assms by (cases n) simp_all
  have "rolling_mean_last 20 (replicate n c) = c" "rolling_std_last 20 (replicate n c) = 0"
    using assms by (simp_all add: rolling_mean_last_flat rolling_std_last_flat)
  then show ?thesis
    by (simp add: bollinger_indicator_def last fl_div_def fl_mul_def fl_round2_def Let_def)
qed

text \<open>
  Claim C9. Every division of the metric computations is guarded against a zero
  denominator; in particular the Bollinger price position is not divided by zero on a
  constant-price series. The code at a series of 20 rows whose close stays at 10: the
  upper and the lower band are both 10, the position is
  \<open>(price - lower) / (upper - lower)\<close> = 0/0 with no check before it, and the
  reported position is \<open>nan\<close>.
\<close>

theorem bollinger_position_flat_series_is_nan:
  "map_sum id (\<lambda>i. map_option bb_position (bollinger_bands i))
     (calculate_technical_indicators (replicate 20 (flat_bar 10))) = Inr (Some NaN) \<and>
   map_sum id (\<lambda>i. map_option (\<lambda>b. bb_upper b - bb_lower b) (bollinger_bands i))
     (calculate_technical_indicators (replicate 20 (flat_bar 10))) = Inr (Some 0)"
proof -
  have p: "bb_position (bollinger_indicator (replicate 20 10)) = NaN"
    by (rule bollinger_flat) simp
  have "rolling_mean_last 20 (replicate 20 10) = 10" "rolling_std_last 20 (replicate 20 10) = 0"
    by (simp_all add: rolling_mean_last_flat rolling_std_last_flat)
  then have "bb_upper (bollinger_indicator (replicate 20 10))
           - bb_lower (bollinger_indicator (replicate 20 10)) = 0"
    by (simp add: bollinger_indicator_def Let_def)
  with p show ?thesis
    by (simp add: calculate_technical_indicators_def close_flat_bar Let_def)
qed

end
